theory Spec2Isabelle
  imports Main "HOL-Library.AList" "HOL-Library.Multiset"
begin

section \<open>Data model\<close>

text \<open>
  The chat server (\<^verbatim>\<open>src/server.js\<close>) keeps three module-level maps
  (\<^verbatim>\<open>onlineUsers\<close>, \<^verbatim>\<open>chatroomUsers\<close>, \<^verbatim>\<open>typingUsers\<close>), one field
  \<^verbatim>\<open>socket.user\<close> per socket, the Socket.IO rooms named \<^verbatim>\<open>room_\<close> followed by the chatroom id, and a MySQL
  store (\<^verbatim>\<open>database.js\<close>, here \<^verbatim>\<open>src/unnamed/part_001\<close>).

  JavaScript strings are sequences of UTF-16 code units; they are modelled as lists of
  code units so that \<^verbatim>\<open>String.prototype.trim\<close> can be written out.
  Socket ids, user ids and chatroom ids are natural numbers; timestamps are natural numbers
  supplied by the environment.
\<close>

type_synonym js_string = "nat list"
type_synonym socket_id = nat
type_synonym user_id = nat
type_synonym chatroom_id = nat
type_synonym time = nat

subsection \<open>The store: tables of \<^verbatim>\<open>initializeDatabase\<close>\<close>

record user_row =
  ur_id :: user_id
  ur_username :: js_string
  ur_nickname :: js_string
  ur_email :: "js_string option"
  ur_avatar :: "js_string option"
  ur_created_at :: time
  ur_last_login :: "time option"

record chatroom_row =
  cr_id :: chatroom_id
  cr_name :: js_string
  cr_description :: "js_string option"
  cr_created_by :: user_id
  cr_created_at :: time
  cr_is_public :: bool

record member_row =
  cm_chatroom_id :: chatroom_id
  cm_user_id :: user_id
  cm_joined_at :: time

record message_row =
  m_id :: nat
  m_chatroom_id :: chatroom_id
  m_user_id :: user_id
  m_content :: js_string
  m_created_at :: time

text \<open>
  \<^verbatim>\<open>users\<close> and \<^verbatim>\<open>chatrooms\<close> are looked up by primary key only, so they are maps from
  the key; \<^verbatim>\<open>chatroom_members\<close> and \<^verbatim>\<open>messages\<close> are row lists in insertion order;
  \<^verbatim>\<open>next_message_id\<close> is the AUTO_INCREMENT counter of \<^verbatim>\<open>messages\<close>.
  The store is taken to be reachable: the only statement failures modelled are the
  foreign-key constraints of the schema.
\<close>

record database =
  users :: "user_id \<rightharpoonup> user_row"
  chatrooms :: "chatroom_id \<rightharpoonup> chatroom_row"
  chatroom_members :: "member_row list"
  messages :: "message_row list"
  next_message_id :: nat

datatype db_error = ForeignKeyViolation

text \<open>\<^verbatim>\<open>User.findById\<close>: \<^verbatim>\<open>SELECT ... FROM users WHERE id = ?\<close>, \<^verbatim>\<open>rows[0] || null\<close>.\<close>

definition User_findById :: "database \<Rightarrow> user_id \<Rightarrow> user_row option" where
  "User_findById d i = users d i"

text \<open>\<^verbatim>\<open>Chatroom.findById\<close>: \<^verbatim>\<open>SELECT * FROM chatrooms WHERE id = ?\<close>, \<^verbatim>\<open>rows[0] || null\<close>.\<close>

definition Chatroom_findById :: "database \<Rightarrow> chatroom_id \<Rightarrow> chatroom_row option" where
  "Chatroom_findById d i = chatrooms d i"

text \<open>
  \<^verbatim>\<open>Chatroom.addMember\<close>: \<^verbatim>\<open>INSERT IGNORE INTO chatroom_members (chatroom_id, user_id)\<close>.
  With \<^verbatim>\<open>IGNORE\<close> a row that would break \<^verbatim>\<open>UNIQUE KEY unique_member\<close> or one of the two
  foreign keys is skipped without an error; \<^verbatim>\<open>joined_at\<close> defaults to the current time.
\<close>

definition Chatroom_addMember :: "database \<Rightarrow> time \<Rightarrow> chatroom_id \<Rightarrow> user_id \<Rightarrow> database" where
  "Chatroom_addMember d now chatroomId userId =
     (if (\<exists>r \<in> set (chatroom_members d). cm_chatroom_id r = chatroomId \<and> cm_user_id r = userId)
         \<or> chatrooms d chatroomId = None \<or> users d userId = None
      then d
      else d\<lparr>chatroom_members := chatroom_members d @
             [\<lparr>cm_chatroom_id = chatroomId, cm_user_id = userId, cm_joined_at = now\<rparr>]\<rparr>)"

text \<open>
  \<^verbatim>\<open>Chatroom.getMembers\<close>: members joined with their users, \<^verbatim>\<open>ORDER BY cm.joined_at ASC\<close>.
  Rows with equal keys are kept in table order (SQL leaves their order open).
\<close>

record member_view =
  mv_id :: user_id
  mv_username :: js_string
  mv_nickname :: js_string
  mv_joined_at :: time

definition member_join :: "database \<Rightarrow> member_row \<Rightarrow> member_view option" where
  "member_join d r =
     (case users d (cm_user_id r) of
        None \<Rightarrow> None
      | Some u \<Rightarrow> Some \<lparr>mv_id = ur_id u, mv_username = ur_username u,
                        mv_nickname = ur_nickname u, mv_joined_at = cm_joined_at r\<rparr>)"

definition Chatroom_getMembers :: "database \<Rightarrow> chatroom_id \<Rightarrow> member_view list" where
  "Chatroom_getMembers d chatroomId =
     sort_key mv_joined_at
       (List.map_filter (member_join d)
          (filter (\<lambda>r. cm_chatroom_id r = chatroomId) (chatroom_members d)))"

text \<open>
  \<^verbatim>\<open>Message.create\<close>: \<^verbatim>\<open>INSERT INTO messages (chatroom_id, user_id, content)\<close>; the
  statement throws when \<^verbatim>\<open>chatroom_id\<close> or \<^verbatim>\<open>user_id\<close> has no referenced row. It
  returns \<^verbatim>\<open>{ id: result.insertId, chatroom_id, user_id, content }\<close>.
\<close>

record message_input =
  mi_chatroom_id :: chatroom_id
  mi_user_id :: user_id
  mi_content :: js_string

record created_message =
  cmsg_id :: nat
  cmsg_chatroom_id :: chatroom_id
  cmsg_user_id :: user_id
  cmsg_content :: js_string

definition Message_create ::
  "database \<Rightarrow> time \<Rightarrow> message_input \<Rightarrow> db_error + (database \<times> created_message)" where
  "Message_create d now messageData =
     (if chatrooms d (mi_chatroom_id messageData) = None \<or> users d (mi_user_id messageData) = None
      then Inl ForeignKeyViolation
      else Inr (d\<lparr>messages := messages d @
                    [\<lparr>m_id = next_message_id d, m_chatroom_id = mi_chatroom_id messageData,
                      m_user_id = mi_user_id messageData, m_content = mi_content messageData,
                      m_created_at = now\<rparr>],
                  next_message_id := Suc (next_message_id d)\<rparr>,
                \<lparr>cmsg_id = next_message_id d, cmsg_chatroom_id = mi_chatroom_id messageData,
                 cmsg_user_id = mi_user_id messageData, cmsg_content = mi_content messageData\<rparr>))"

text \<open>
  \<^verbatim>\<open>Message.getByChatroom(chatroomId, limit = 100)\<close>: \<^verbatim>\<open>safeLimit = parseInt(limit) || 100\<close>,
  then the room's messages joined with their authors,
  \<^verbatim>\<open>ORDER BY m.created_at DESC LIMIT safeLimit\<close>, and \<^verbatim>\<open>rows.reverse()\<close>.
  Rows with equal \<^verbatim>\<open>created_at\<close> are kept in table order by the sort (SQL leaves their
  order open). \<open>limit\<close> is a number below \<open>10^21\<close>, which \<^verbatim>\<open>parseInt\<close> reads back
  digit by digit (a larger number is printed with an exponent, of which \<^verbatim>\<open>parseInt\<close> reads
  the first digit only); the one call in the server passes 50.
\<close>

record history_row =
  h_id :: nat
  h_chatroom_id :: chatroom_id
  h_user_id :: user_id
  h_content :: js_string
  h_created_at :: time
  h_nickname :: js_string
  h_username :: js_string
  h_avatar :: "js_string option"

definition message_join :: "database \<Rightarrow> message_row \<Rightarrow> history_row option" where
  "message_join d m =
     (case users d (m_user_id m) of
        None \<Rightarrow> None
      | Some u \<Rightarrow> Some \<lparr>h_id = m_id m, h_chatroom_id = m_chatroom_id m, h_user_id = m_user_id m,
                        h_content = m_content m, h_created_at = m_created_at m,
                        h_nickname = ur_nickname u, h_username = ur_username u,
                        h_avatar = ur_avatar u\<rparr>)"

definition room_messages :: "database \<Rightarrow> chatroom_id \<Rightarrow> history_row list" where
  "room_messages d chatroomId =
     List.map_filter (message_join d) (filter (\<lambda>m. m_chatroom_id m = chatroomId) (messages d))"

definition order_by_created_at_desc :: "history_row list \<Rightarrow> history_row list" where
  "order_by_created_at_desc rows = sort_key (\<lambda>h. - int (h_created_at h)) rows"

definition safeLimit :: "nat \<Rightarrow> nat" where
  "safeLimit limit = (if limit = 0 then 100 else limit)"

definition Message_getByChatroom :: "database \<Rightarrow> chatroom_id \<Rightarrow> nat \<Rightarrow> history_row list" where
  "Message_getByChatroom d chatroomId limit =
     rev (take (safeLimit limit) (order_by_created_at_desc (room_messages d chatroomId)))"


section \<open>The socket layer of \<^verbatim>\<open>server.js\<close>\<close>

subsection \<open>State\<close>

text \<open>\<^verbatim>\<open>socket.user\<close>, as \<^verbatim>\<open>authenticate\<close> builds it.\<close>

record user_info =
  su_id :: user_id
  su_nickname :: js_string
  su_username :: js_string
  su_email :: "js_string option"
  su_avatar :: "js_string option"

text \<open>An entry of a room's typing map: \<^verbatim>\<open>{ id: user.id, nickname: user.nickname }\<close>.\<close>

record typing_info =
  ti_id :: user_id
  ti_nickname :: js_string

text \<open>
  \<^item> \<open>socket_user\<close>: \<^verbatim>\<open>socket.user\<close> of each socket, \<open>None\<close> for \<^verbatim>\<open>null\<close>;
  \<^item> \<open>rooms\<close>: the sockets in the Socket.IO room of each chatroom (what
    \<^verbatim>\<open>socket.join\<close>, \<^verbatim>\<open>socket.leave\<close> and the library's own clean-up on close maintain,
    and what \<^verbatim>\<open>io.to(room)\<close> and \<^verbatim>\<open>socket.to(room)\<close> read when they emit);
  \<^item> \<open>onlineUsers\<close>: \<^verbatim>\<open>Map socketId -> userInfo\<close>;
  \<^item> \<open>chatroomUsers\<close>: \<^verbatim>\<open>Map chatroomId -> Set of socketIds\<close>, in insertion order of
    its keys (the \<^verbatim>\<open>disconnect\<close> handler iterates over it);
  \<^item> \<open>typingUsers\<close>: \<^verbatim>\<open>Map chatroomId -> Map socketId -> userInfo\<close>; the inner map in
    insertion order (\<^verbatim>\<open>Array.from(map.values())\<close> reads it in that order).
\<close>

record state =
  db :: database
  socket_user :: "socket_id \<rightharpoonup> user_info"
  rooms :: "chatroom_id \<Rightarrow> socket_id set"
  onlineUsers :: "socket_id \<rightharpoonup> user_info"
  chatroomUsers :: "(chatroom_id \<times> socket_id set) list"
  typingUsers :: "chatroom_id \<rightharpoonup> (socket_id \<times> typing_info) list"

subsection \<open>Events sent to clients\<close>

text \<open>
  The \<^verbatim>\<open>error\<close> messages of the handlers, each a fixed Chinese sentence in the source:
  \<open>UserNotExist\<close> (the user does not exist), \<open>AuthFailed\<close> (authentication failed),
  \<open>PleaseLogin\<close> (log in first), \<open>ChatroomNotExist\<close> (the chatroom does not exist),
  \<open>JoinFailed\<close> (joining the chatroom failed), \<open>SendFailed\<close> (sending the message
  failed).
\<close>

datatype error_message =
  UserNotExist | AuthFailed | PleaseLogin | ChatroomNotExist | JoinFailed | SendFailed

record message_data =
  md_id :: nat
  md_userId :: user_id
  md_nickname :: js_string
  md_username :: js_string
  md_avatar :: "js_string option"
  md_content :: js_string
  md_timestamp :: js_string
  md_chatroomId :: chatroom_id

datatype event =
  Error error_message
| Authenticated
| MessageHistory "history_row list"
| RoomMembers "member_view list"
| UserJoined user_id js_string js_string js_string
| UserLeft user_id js_string js_string
| MessageEv message_data
| TypingUsers chatroom_id "typing_info list"

text \<open>
  An emission is an event with the set of sockets it is sent to:
  \<^verbatim>\<open>socket.emit\<close> sends to the socket itself, \<^verbatim>\<open>io.to(room).emit\<close> to every socket in
  the room, \<^verbatim>\<open>socket.to(room).emit\<close> to every socket in the room but the sender.
\<close>

type_synonym emission = "socket_id set \<times> event"

definition socket_emit :: "socket_id \<Rightarrow> event \<Rightarrow> emission" where
  "socket_emit sid ev = ({sid}, ev)"

definition io_to_emit :: "state \<Rightarrow> chatroom_id \<Rightarrow> event \<Rightarrow> emission" where
  "io_to_emit s chatroomId ev = (rooms s chatroomId, ev)"

definition socket_to_emit :: "state \<Rightarrow> socket_id \<Rightarrow> chatroom_id \<Rightarrow> event \<Rightarrow> emission" where
  "socket_to_emit s sid chatroomId ev = (rooms s chatroomId - {sid}, ev)"

text \<open>The events a socket receives from a list of emissions, in order.\<close>

definition received :: "socket_id \<Rightarrow> emission list \<Rightarrow> event list" where
  "received sid es = map snd (filter (\<lambda>e. sid \<in> fst e) es)"

subsection \<open>Strings\<close>

text \<open>
  \<^verbatim>\<open>String.prototype.trim\<close> removes white space and line terminators from both ends:
  U+0009..U+000D, U+0020, U+00A0, U+1680, U+2000..U+200A, U+2028, U+2029, U+202F, U+205F,
  U+3000, U+FEFF.
\<close>

definition is_js_whitespace :: "nat \<Rightarrow> bool" where
  "is_js_whitespace u =
     ((9 \<le> u \<and> u \<le> 13) \<or> u = 32 \<or> u = 160 \<or> u = 5760 \<or> (8192 \<le> u \<and> u \<le> 8202)
      \<or> u = 8232 \<or> u = 8233 \<or> u = 8239 \<or> u = 8287 \<or> u = 12288 \<or> u = 65279)"

definition trim :: "js_string \<Rightarrow> js_string" where
  "trim str = rev (dropWhile is_js_whitespace (rev (dropWhile is_js_whitespace str)))"

text \<open>
  The suffixes of the presence notices, as code units: a space and the words for
  "joined the chatroom" and for "left the chatroom".
\<close>

definition joined_suffix :: js_string where
  "joined_suffix = [32, 21152, 20837, 20102, 32842, 22825, 23460]"

definition left_suffix :: js_string where
  "left_suffix = [32, 31163, 24320, 20102, 32842, 22825, 23460]"

subsection \<open>Client payloads\<close>

text \<open>
  The payloads carry the fields the client sends, with their types. The \<^verbatim>\<open>log\<close> calls of
  the handlers write to the console only and are left out.
\<close>

record authenticate_data =
  ad_id :: user_id

record room_data =
  rd_chatroomId :: chatroom_id

text \<open>\<open>msg_content = None\<close> is a payload without \<^verbatim>\<open>content\<close>.\<close>

record message_payload =
  msg_chatroomId :: chatroom_id
  msg_content :: "js_string option"

record typing_data =
  td_chatroomId :: chatroom_id
  td_isTyping :: bool

subsection \<open>\<^verbatim>\<open>socket.on('authenticate')\<close>\<close>

text \<open>
  The handler awaits \<^verbatim>\<open>User.findById\<close> and then binds the user; it is modelled with the
  store answering before the next event is handled.
\<close>

definition authenticate :: "state \<Rightarrow> socket_id \<Rightarrow> authenticate_data \<Rightarrow> state \<times> emission list" where
  "authenticate s sid userData =
     (case User_findById (db s) (ad_id userData) of
        None \<Rightarrow> (s, [socket_emit sid (Error UserNotExist)])
      | Some user \<Rightarrow>
          (let su = \<lparr>su_id = ur_id user, su_nickname = ur_nickname user,
                     su_username = ur_username user, su_email = ur_email user,
                     su_avatar = ur_avatar user\<rparr>
           in (s\<lparr>socket_user := (socket_user s)(sid \<mapsto> su),
                  onlineUsers := (onlineUsers s)(sid \<mapsto> su)\<rparr>,
               [socket_emit sid Authenticated])))"

subsection \<open>\<^verbatim>\<open>socket.on('joinRoom')\<close>\<close>

text \<open>
  \<^verbatim>\<open>if (!chatroomUsers.has(chatroomId)) chatroomUsers.set(chatroomId, new Set());
  chatroomUsers.get(chatroomId).add(socket.id)\<close>
\<close>

definition chatroomUsers_add ::
  "(chatroom_id \<times> socket_id set) list \<Rightarrow> chatroom_id \<Rightarrow> socket_id \<Rightarrow> (chatroom_id \<times> socket_id set) list" where
  "chatroomUsers_add cu chatroomId sid =
     (case map_of cu chatroomId of
        None \<Rightarrow> AList.update chatroomId {sid} cu
      | Some socketIds \<Rightarrow> AList.update chatroomId (insert sid socketIds) cu)"

text \<open>
  The handler awaits four store calls (\<^verbatim>\<open>findById\<close> and \<^verbatim>\<open>addMember\<close> before
  \<^verbatim>\<open>socket.join\<close>, \<^verbatim>\<open>getByChatroom\<close> and \<^verbatim>\<open>getMembers\<close> after it). It is modelled
  running to its end with each store call answered before the next event is handled; what
  happens when another event (the disconnect of the same socket, for one) is handled while it
  is suspended is outside this model. \<open>now\<close> is the store's clock when \<^verbatim>\<open>addMember\<close>
  inserts.
\<close>

definition joinRoom :: "state \<Rightarrow> time \<Rightarrow> socket_id \<Rightarrow> room_data \<Rightarrow> state \<times> emission list" where
  "joinRoom s now sid data =
     (case socket_user s sid of
        None \<Rightarrow> (s, [socket_emit sid (Error PleaseLogin)])
      | Some user \<Rightarrow>
          (let chatroomId = rd_chatroomId data in
           case Chatroom_findById (db s) chatroomId of
             None \<Rightarrow> (s, [socket_emit sid (Error ChatroomNotExist)])
           | Some chatroom \<Rightarrow>
               (let s1 = s\<lparr>db := Chatroom_addMember (db s) now chatroomId (su_id user)\<rparr>;
                    s2 = s1\<lparr>rooms := (rooms s1)(chatroomId := insert sid (rooms s1 chatroomId))\<rparr>;
                    s3 = s2\<lparr>chatroomUsers := chatroomUsers_add (chatroomUsers s2) chatroomId sid\<rparr>;
                    msgs = Message_getByChatroom (db s3) chatroomId 50;
                    members = Chatroom_getMembers (db s3) chatroomId
                in (s3,
                    [socket_emit sid (MessageHistory msgs),
                     socket_emit sid (RoomMembers members),
                     socket_to_emit s3 sid chatroomId
                       (UserJoined (su_id user) (su_nickname user) (su_username user)
                          (su_nickname user @ joined_suffix))]))))"

subsection \<open>\<^verbatim>\<open>socket.on('message')\<close>\<close>

text \<open>
  The handler suspends once, at \<^verbatim>\<open>await Message.create(...)\<close>. \<open>message_begin\<close> is the
  part up to the insert; when the message is stored it returns what the rest of the handler
  holds in its local variables (\<^verbatim>\<open>user\<close>, \<^verbatim>\<open>chatroomId\<close>, \<^verbatim>\<open>content\<close>, \<^verbatim>\<open>message\<close>).
  \<open>message_finish\<close> is the part after the \<^verbatim>\<open>await\<close>; it runs on the state of that later
  moment. \<open>timestamp\<close> is \<^verbatim>\<open>new Date().toLocaleTimeString('zh-CN')\<close> at that moment.
\<close>

record pending_message =
  pm_user :: user_info
  pm_chatroomId :: chatroom_id
  pm_content :: js_string
  pm_message :: created_message

definition message_begin ::
  "state \<Rightarrow> time \<Rightarrow> socket_id \<Rightarrow> message_payload \<Rightarrow> state \<times> emission list \<times> pending_message option" where
  "message_begin s now sid data =
     (case socket_user s sid of
        None \<Rightarrow> (s, [socket_emit sid (Error PleaseLogin)], None)
      | Some user \<Rightarrow>
          (case msg_content data of
             None \<Rightarrow> (s, [], None)
           | Some content \<Rightarrow>
               if content = [] \<or> length (trim content) = 0 then (s, [], None)
               else
                 (case Message_create (db s) now
                         \<lparr>mi_chatroom_id = msg_chatroomId data, mi_user_id = su_id user,
                          mi_content = trim content\<rparr> of
                    Inl err \<Rightarrow> (s, [socket_emit sid (Error SendFailed)], None)
                  | Inr (d, message) \<Rightarrow>
                      (s\<lparr>db := d\<rparr>, [],
                       Some \<lparr>pm_user = user, pm_chatroomId = msg_chatroomId data,
                             pm_content = content, pm_message = message\<rparr>))))"

definition messageData :: "pending_message \<Rightarrow> js_string \<Rightarrow> message_data" where
  "messageData p timestamp =
     \<lparr>md_id = cmsg_id (pm_message p), md_userId = su_id (pm_user p),
      md_nickname = su_nickname (pm_user p), md_username = su_username (pm_user p),
      md_avatar = su_avatar (pm_user p), md_content = trim (pm_content p),
      md_timestamp = timestamp, md_chatroomId = pm_chatroomId p\<rparr>"

definition message_finish :: "state \<Rightarrow> js_string \<Rightarrow> pending_message \<Rightarrow> state \<times> emission list" where
  "message_finish s timestamp p =
     (s, [io_to_emit s (pm_chatroomId p) (MessageEv (messageData p timestamp))])"

text \<open>The whole handler when nothing else is handled while it is suspended.\<close>

definition message ::
  "state \<Rightarrow> time \<Rightarrow> js_string \<Rightarrow> socket_id \<Rightarrow> message_payload \<Rightarrow> state \<times> emission list" where
  "message s now timestamp sid data =
     (case message_begin s now sid data of
        (s1, es, None) \<Rightarrow> (s1, es)
      | (s1, es, Some p) \<Rightarrow>
          (case message_finish s1 timestamp p of (s2, es2) \<Rightarrow> (s2, es @ es2)))"

subsection \<open>\<^verbatim>\<open>socket.on('typing')\<close>\<close>

text \<open>
  \<^verbatim>\<open>Map.prototype.set\<close> keeps the position of a key that is already there and appends a
  new one (\<open>AList.update\<close>); \<^verbatim>\<open>Map.prototype.delete\<close> is \<open>AList.delete\<close>. A room that
  has no typing map gets an empty one first.
\<close>

definition typing :: "state \<Rightarrow> socket_id \<Rightarrow> typing_data \<Rightarrow> state \<times> emission list" where
  "typing s sid data =
     (case socket_user s sid of
        None \<Rightarrow> (s, [])
      | Some user \<Rightarrow>
          (let chatroomId = td_chatroomId data;
               roomTypingUsers = (case typingUsers s chatroomId of None \<Rightarrow> [] | Some m \<Rightarrow> m);
               roomTypingUsers' =
                 (if td_isTyping data
                  then AList.update sid \<lparr>ti_id = su_id user, ti_nickname = su_nickname user\<rparr>
                         roomTypingUsers
                  else AList.delete sid roomTypingUsers);
               s1 = s\<lparr>typingUsers := (typingUsers s)(chatroomId \<mapsto> roomTypingUsers')\<rparr>;
               typingList = map snd roomTypingUsers'
           in (s1, [io_to_emit s1 chatroomId (TypingUsers chatroomId typingList)])))"

subsection \<open>\<^verbatim>\<open>socket.on('leaveRoom')\<close>\<close>

text \<open>
  \<^verbatim>\<open>if (chatroomUsers.has(chatroomId)) chatroomUsers.get(chatroomId).delete(socket.id)\<close>
\<close>

definition chatroomUsers_delete ::
  "(chatroom_id \<times> socket_id set) list \<Rightarrow> chatroom_id \<Rightarrow> socket_id \<Rightarrow> (chatroom_id \<times> socket_id set) list" where
  "chatroomUsers_delete cu chatroomId sid =
     (case map_of cu chatroomId of
        None \<Rightarrow> cu
      | Some socketIds \<Rightarrow> AList.update chatroomId (socketIds - {sid}) cu)"

definition leaveRoom :: "state \<Rightarrow> socket_id \<Rightarrow> room_data \<Rightarrow> state \<times> emission list" where
  "leaveRoom s sid data =
     (case socket_user s sid of
        None \<Rightarrow> (s, [])
      | Some user \<Rightarrow>
          (let chatroomId = rd_chatroomId data;
               s1 = s\<lparr>rooms := (rooms s)(chatroomId := rooms s chatroomId - {sid})\<rparr>;
               s2 = s1\<lparr>chatroomUsers := chatroomUsers_delete (chatroomUsers s1) chatroomId sid\<rparr>
           in (s2,
               [socket_to_emit s2 sid chatroomId
                  (UserLeft (su_id user) (su_nickname user) (su_nickname user @ left_suffix))])))"

subsection \<open>\<^verbatim>\<open>socket.on('disconnect')\<close>\<close>

text \<open>
  The loop \<^verbatim>\<open>for (const [chatroomId, socketIds] of chatroomUsers.entries())\<close>: for each
  room whose set holds the socket, the socket is deleted from the set; if the room has a
  typing map the socket's entry is deleted from it and the list is sent to the others; then
  \<^verbatim>\<open>userLeft\<close> is sent to the others. It returns the updated \<^verbatim>\<open>chatroomUsers\<close> and
  \<^verbatim>\<open>typingUsers\<close> and the emissions in order. \<open>rms\<close> are the Socket.IO rooms.
\<close>

fun disconnect_rooms ::
  "socket_id \<Rightarrow> user_info \<Rightarrow> (chatroom_id \<Rightarrow> socket_id set) \<Rightarrow> (chatroom_id \<times> socket_id set) list \<Rightarrow>
   (chatroom_id \<rightharpoonup> (socket_id \<times> typing_info) list) \<Rightarrow>
   (chatroom_id \<times> socket_id set) list \<times> (chatroom_id \<rightharpoonup> (socket_id \<times> typing_info) list) \<times> emission list" where
  "disconnect_rooms sid user rms [] tu = ([], tu, [])"
| "disconnect_rooms sid user rms ((chatroomId, socketIds) # rest) tu =
     (if sid \<in> socketIds then
        (let (tu1, es1) =
               (case tu chatroomId of
                  None \<Rightarrow> (tu, [])
                | Some m \<Rightarrow>
                    (tu(chatroomId \<mapsto> AList.delete sid m),
                     [(rms chatroomId - {sid},
                       TypingUsers chatroomId (map snd (AList.delete sid m)))]));
             es2 = [(rms chatroomId - {sid},
                     UserLeft (su_id user) (su_nickname user) (su_nickname user @ left_suffix))];
             (rest', tu2, es3) = disconnect_rooms sid user rms rest tu1
         in ((chatroomId, socketIds - {sid}) # rest', tu2, es1 @ es2 @ es3))
      else
        (let (rest', tu2, es3) = disconnect_rooms sid user rms rest tu
         in ((chatroomId, socketIds) # rest', tu2, es3)))"

text \<open>
  When the \<^verbatim>\<open>disconnect\<close> event fires, Socket.IO has already taken the socket out of
  every room. Then the handler runs: the loop above when \<^verbatim>\<open>socket.user\<close> is set, and
  \<^verbatim>\<open>onlineUsers.delete(socket.id)\<close> in any case.
\<close>

definition disconnect :: "state \<Rightarrow> socket_id \<Rightarrow> state \<times> emission list" where
  "disconnect s sid =
     (let s0 = s\<lparr>rooms := (\<lambda>r. rooms s r - {sid})\<rparr> in
      case socket_user s0 sid of
        Some user \<Rightarrow>
          (case disconnect_rooms sid user (rooms s0) (chatroomUsers s0) (typingUsers s0) of
             (cu, tu, es) \<Rightarrow>
               (s0\<lparr>chatroomUsers := cu, typingUsers := tu,
                    onlineUsers := (onlineUsers s0)(sid := None)\<rparr>, es))
      | None \<Rightarrow> (s0\<lparr>onlineUsers := (onlineUsers s0)(sid := None)\<rparr>, []))"

subsection \<open>Runs of the server\<close>

text \<open>
  The server changes its state only in the six handlers above: it registers no timer.
  A run handles client events one after the other and collects the emissions.
\<close>

datatype client_event =
  Authenticate socket_id authenticate_data
| JoinRoom time socket_id room_data
| Message time js_string socket_id message_payload
| Typing socket_id typing_data
| LeaveRoom socket_id room_data
| Disconnect socket_id

fun step :: "state \<Rightarrow> client_event \<Rightarrow> state \<times> emission list" where
  "step s (Authenticate sid userData) = authenticate s sid userData"
| "step s (JoinRoom now sid data) = joinRoom s now sid data"
| "step s (Message now timestamp sid data) = message s now timestamp sid data"
| "step s (Typing sid data) = typing s sid data"
| "step s (LeaveRoom sid data) = leaveRoom s sid data"
| "step s (Disconnect sid) = disconnect s sid"

fun run :: "state \<Rightarrow> client_event list \<Rightarrow> state \<times> emission list" where
  "run s [] = (s, [])"
| "run s (ev # evs) =
     (case step s ev of (s1, es1) \<Rightarrow> (case run s1 evs of (s2, es2) \<Rightarrow> (s2, es1 @ es2)))"

text \<open>Whether a socket has an entry in a room's typing map.\<close>

definition has_typing_entry :: "state \<Rightarrow> chatroom_id \<Rightarrow> socket_id \<Rightarrow> bool" where
  "has_typing_entry s chatroomId sid =
     (case typingUsers s chatroomId of None \<Rightarrow> False | Some m \<Rightarrow> map_of m sid \<noteq> None)"

text \<open>The rooms whose \<^verbatim>\<open>chatroomUsers\<close> set holds a socket.\<close>

definition member_of :: "state \<Rightarrow> chatroom_id \<Rightarrow> socket_id \<Rightarrow> bool" where
  "member_of s chatroomId sid =
     (\<exists>(r, socketIds) \<in> set (chatroomUsers s). r = chatroomId \<and> sid \<in> socketIds)"

subsection \<open>A small deployment for concrete runs\<close>

text \<open>
  Two users (1 "al", 2 "bo"), one chatroom (7), no messages, nobody connected.
  Sockets are numbered 10, 20, 30.
\<close>

definition alice :: user_row where
  "alice = \<lparr>ur_id = 1, ur_username = [97, 108], ur_nickname = [65, 108], ur_email = None,
            ur_avatar = None, ur_created_at = 0, ur_last_login = None\<rparr>"

definition bob :: user_row where
  "bob = \<lparr>ur_id = 2, ur_username = [98, 111], ur_nickname = [66, 111], ur_email = None,
          ur_avatar = None, ur_created_at = 0, ur_last_login = None\<rparr>"

definition lobby :: chatroom_row where
  "lobby = \<lparr>cr_id = 7, cr_name = [76], cr_description = None, cr_created_by = 1,
            cr_created_at = 0, cr_is_public = True\<rparr>"

definition db0 :: database where
  "db0 = \<lparr>users = [1 \<mapsto> alice, 2 \<mapsto> bob], chatrooms = [7 \<mapsto> lobby],
          chatroom_members = [], messages = [], next_message_id = 1\<rparr>"

definition state0 :: state where
  "state0 = \<lparr>db = db0, socket_user = Map.empty, rooms = (\<lambda>r. {}), onlineUsers = Map.empty,
             chatroomUsers = [], typingUsers = Map.empty\<rparr>"

text \<open>\<^verbatim>\<open>socket.user\<close> of a socket bound to user 1 and of one bound to user 2.\<close>

definition alice_info :: user_info where
  "alice_info = \<lparr>su_id = 1, su_nickname = [65, 108], su_username = [97, 108],
                 su_email = None, su_avatar = None\<rparr>"

definition bob_info :: user_info where
  "bob_info = \<lparr>su_id = 2, su_nickname = [66, 111], su_username = [98, 111],
               su_email = None, su_avatar = None\<rparr>"

text \<open>
  \<open>state_a\<close>: socket 10 is bound to user 1 and in no room; socket 20 is bound to user 2
  and in chatroom 7. \<open>state_b\<close>: socket 10 has joined chatroom 7 as well.
\<close>

definition state_a :: state where
  "state_a = fst (run state0 [Authenticate 10 \<lparr>ad_id = 1\<rparr>, Authenticate 20 \<lparr>ad_id = 2\<rparr>,
                              JoinRoom 5 20 \<lparr>rd_chatroomId = 7\<rparr>])"

definition state_b :: state where
  "state_b = fst (run state_a [JoinRoom 6 10 \<lparr>rd_chatroomId = 7\<rparr>])"

text \<open>
  \<open>state_c\<close>: as \<open>state_b\<close>, and a third socket, 30, is bound to user 1 and in no room.
\<close>

definition state_c :: state where
  "state_c = fst (run state_b [Authenticate 30 \<lparr>ad_id = 1\<rparr>])"

text \<open>
  The payload \<^verbatim>\<open>{ chatroomId: 7, content: ' hi' }\<close>, and what the \<^verbatim>\<open>message\<close> handler
  of socket 20 holds while that message is being stored as message 1.
\<close>

definition hi_payload :: message_payload where
  "hi_payload = \<lparr>msg_chatroomId = 7, msg_content = Some [32, 104, 105]\<rparr>"

definition pending_hi :: pending_message where
  "pending_hi =
     \<lparr>pm_user = bob_info, pm_chatroomId = 7, pm_content = [32, 104, 105],
      pm_message = \<lparr>cmsg_id = 1, cmsg_chatroom_id = 7, cmsg_user_id = 2,
                    cmsg_content = [104, 105]\<rparr>\<rparr>"

text \<open>
  \<open>state_d\<close>: from \<open>state_c\<close>, three messages are published to chatroom 7; the store
  stamps them 9, 12 and 11.
\<close>

definition state_d :: state where
  "state_d = fst (run state_c
     [Message 9 [57] 20 hi_payload,
      Message 12 [57] 10 \<lparr>msg_chatroomId = 7, msg_content = Some [111, 107]\<rparr>,
      Message 11 [57] 20 \<lparr>msg_chatroomId = 7, msg_content = Some [121, 111]\<rparr>])"

text \<open>
  \<open>state_f\<close>: as \<open>state_c\<close>, with 52 stored messages of user 2 in chatroom 7; they
  have the ids 11 to 62 and message \<open>i\<close> is stamped \<open>1000 + i\<close>.
\<close>

definition state_f :: state where
  "state_f = state_c\<lparr>db := (db state_c)
     \<lparr>messages := map (\<lambda>i. \<lparr>m_id = i, m_chatroom_id = 7, m_user_id = 2, m_content = [104, 105],
                              m_created_at = 1000 + i\<rparr>) [11..<63],
      next_message_id := 63\<rparr>\<rparr>"

text \<open>
  \<open>state_e\<close>: from \<open>state_b\<close>, socket 10 signals that it is typing in chatroom 7, leaves
  the chatroom and then disconnects.
\<close>

definition state_e :: state where
  "state_e = fst (run state_b
     [Typing 10 \<lparr>td_chatroomId = 7, td_isTyping = True\<rparr>,
      LeaveRoom 10 \<lparr>rd_chatroomId = 7\<rparr>,
      Disconnect 10])"

text \<open>
  \<open>idle_run\<close>: socket 10 signals that it is typing in chatroom 7 and then sends nothing
  more; later socket 20 publishes a message, which the store stamps 1000, and signals that it
  is typing.
\<close>

definition idle_run :: "client_event list" where
  "idle_run =
     [Typing 10 \<lparr>td_chatroomId = 7, td_isTyping = True\<rparr>,
      Message 1000 [57] 20 hi_payload,
      Typing 20 \<lparr>td_chatroomId = 7, td_isTyping = True\<rparr>]"

text \<open>Kinds of events.\<close>

fun is_presence_event :: "event \<Rightarrow> bool" where
  "is_presence_event (UserJoined i n u m) = True"
| "is_presence_event (UserLeft i n m) = True"
| "is_presence_event ev = False"

fun is_history_event :: "event \<Rightarrow> bool" where
  "is_history_event (MessageHistory l) = True"
| "is_history_event ev = False"

section \<open>Evaluation of concrete runs\<close>

lemmas handler_defs = authenticate_def joinRoom_def message_def message_begin_def message_finish_def
  typing_def leaveRoom_def disconnect_def socket_emit_def io_to_emit_def socket_to_emit_def
  User_findById_def Chatroom_findById_def Chatroom_addMember_def Chatroom_getMembers_def
  Message_create_def Message_getByChatroom_def room_messages_def order_by_created_at_desc_def
  safeLimit_def message_join_def member_join_def chatroomUsers_add_def chatroomUsers_delete_def
  messageData_def trim_def is_js_whitespace_def has_typing_entry_def member_of_def received_def
  joined_suffix_def left_suffix_def List.map_filter_def Let_def

lemmas deployment_defs = state0_def db0_def alice_def bob_def lobby_def alice_info_def bob_info_def

lemma state_a_eq: "state_a =
  \<lparr>db = db0\<lparr>chatroom_members := [\<lparr>cm_chatroom_id = 7, cm_user_id = 2, cm_joined_at = 5\<rparr>]\<rparr>,
   socket_user = [10 \<mapsto> alice_info, 20 \<mapsto> bob_info],
   rooms = (\<lambda>r. {})(7 := {20}),
   onlineUsers = [10 \<mapsto> alice_info, 20 \<mapsto> bob_info],
   chatroomUsers = [(7, {20})], typingUsers = Map.empty\<rparr>"
  by (simp add: state_a_def handler_defs deployment_defs)

lemma state_b_eq: "state_b =
  \<lparr>db = db0\<lparr>chatroom_members := [\<lparr>cm_chatroom_id = 7, cm_user_id = 2, cm_joined_at = 5\<rparr>,
        \<lparr>cm_chatroom_id = 7, cm_user_id = 1, cm_joined_at = 6\<rparr>]\<rparr>,
   socket_user = [10 \<mapsto> alice_info, 20 \<mapsto> bob_info],
   rooms = (\<lambda>r. {})(7 := {10, 20}),
   onlineUsers = [10 \<mapsto> alice_info, 20 \<mapsto> bob_info],
   chatroomUsers = [(7, {10, 20})], typingUsers = Map.empty\<rparr>"
  by (simp add: state_b_def state_a_eq handler_defs deployment_defs)

section \<open>The store under \<^verbatim>\<open>addMember\<close>\<close>

lemma addMember_users [simp]: "users (Chatroom_addMember d now r i) = users d"
  and addMember_chatrooms [simp]: "chatrooms (Chatroom_addMember d now r i) = chatrooms d"
  and addMember_messages [simp]: "messages (Chatroom_addMember d now r i) = messages d"
  by (simp_all add: Chatroom_addMember_def)

lemma getByChatroom_addMember [simp]:
  "Message_getByChatroom (Chatroom_addMember d now r i) r' n = Message_getByChatroom d r' n"
  by (simp add: Message_getByChatroom_def room_messages_def message_join_def [abs_def])

section \<open>Fan-out of a published message\<close>

text \<open>
  Claim C1. Fan-out of a published message is computed from the room's live membership at the
  moment of fan-out, read after persistence completes. Whenever the first part of the
  \<^verbatim>\<open>message\<close> handler has stored a message for room \<open>r\<close> and is suspended with \<open>p\<close>:
  in whatever state \<open>s2\<close> the handler resumes, it sends the message to exactly the sockets
  that are in the room in \<open>s2\<close>; so a socket \<open>b\<close> that leaves the room (by \<^verbatim>\<open>leaveRoom\<close> or
  by disconnecting) while the handler is suspended does not receive the message, and a
  socket \<open>c\<close> that joins the room in that window receives it. (A member \<open>b\<close> receives
  the message when nothing happens in between.)
\<close>

theorem fanout_reads_live_membership:
  assumes "message_begin s now a \<lparr>msg_chatroomId = r, msg_content = content\<rparr> = (s1, es, Some p)"
  shows "(\<forall>s2. message_finish s2 ts p = (s2, [(rooms s2 r, MessageEv (messageData p ts))]))
       \<and> (b \<in> rooms s r \<longrightarrow>
            received b (snd (message_finish s1 ts p)) = [MessageEv (messageData p ts)])
       \<and> (socket_user s1 b \<noteq> None \<longrightarrow>
            received b (snd (message_finish (fst (leaveRoom s1 b \<lparr>rd_chatroomId = r\<rparr>)) ts p)) = [])
       \<and> received b (snd (message_finish (fst (disconnect s1 b)) ts p)) = []
       \<and> (socket_user s1 c \<noteq> None \<longrightarrow>
            received c (snd (message_finish (fst (joinRoom s1 now' c \<lparr>rd_chatroomId = r\<rparr>)) ts p)) =
              [MessageEv (messageData p ts)])"
proof -
  from assms have p: "pm_chatroomId p = r" and room: "chatrooms (db s1) r \<noteq> None"
    and same: "rooms s1 = rooms s"
    by (auto simp add: message_begin_def Message_create_def split: option.splits if_splits)
  have fin: "\<And>s2. message_finish s2 ts p = (s2, [(rooms s2 r, MessageEv (messageData p ts))])"
    by (simp add: message_finish_def io_to_emit_def p)
  have leave: "socket_user s1 b \<noteq> None \<Longrightarrow> b \<notin> rooms (fst (leaveRoom s1 b \<lparr>rd_chatroomId = r\<rparr>)) r"
    by (auto simp add: leaveRoom_def Let_def)
  have disc: "b \<notin> rooms (fst (disconnect s1 b)) r"
    by (auto simp add: disconnect_def Let_def split: option.splits prod.splits)
  have join: "socket_user s1 c \<noteq> None \<Longrightarrow> c \<in> rooms (fst (joinRoom s1 now' c \<lparr>rd_chatroomId = r\<rparr>)) r"
    using room by (auto simp add: joinRoom_def Chatroom_findById_def Let_def)
  show ?thesis
    using leave disc join by (simp add: fin received_def same)
qed

lemma state_c_eq: "state_c =
  \<lparr>db = db0\<lparr>chatroom_members := [\<lparr>cm_chatroom_id = 7, cm_user_id = 2, cm_joined_at = 5\<rparr>,
        \<lparr>cm_chatroom_id = 7, cm_user_id = 1, cm_joined_at = 6\<rparr>]\<rparr>,
   socket_user = [10 \<mapsto> alice_info, 20 \<mapsto> bob_info, 30 \<mapsto> alice_info],
   rooms = (\<lambda>r. {})(7 := {10, 20}),
   onlineUsers = [10 \<mapsto> alice_info, 20 \<mapsto> bob_info, 30 \<mapsto> alice_info],
   chatroomUsers = [(7, {10, 20})], typingUsers = Map.empty\<rparr>"
  by (simp add: state_c_def state_b_eq handler_defs deployment_defs)

lemma begin_hi:
  "message_begin state_c 9 20 hi_payload =
     (state_c\<lparr>db := (db state_c)\<lparr>messages := [\<lparr>m_id = 1, m_chatroom_id = 7, m_user_id = 2,
         m_content = [104, 105], m_created_at = 9\<rparr>], next_message_id := 2\<rparr>\<rparr>, [], Some pending_hi)"
  by (simp add: state_c_eq handler_defs deployment_defs pending_hi_def hi_payload_def)

text \<open>
  Socket 20 publishes to chatroom 7 in \<open>state_c\<close>, where socket 10 is in the room and
  socket 30 is not; while the insert is pending socket 10 leaves (or disconnects), or socket 30
  joins.
\<close>

theorem fanout_reads_live_membership_witness:
  "snd (snd (message_begin state_c 9 20 hi_payload)) = Some pending_hi
   \<and> 10 \<in> rooms state_c 7 \<and> 30 \<notin> rooms state_c 7
   \<and> received 10 (snd (message_finish (fst (message_begin state_c 9 20 hi_payload)) [57] pending_hi)) =
       [MessageEv (messageData pending_hi [57])]
   \<and> received 10 (snd (message_finish
        (fst (leaveRoom (fst (message_begin state_c 9 20 hi_payload)) 10 \<lparr>rd_chatroomId = 7\<rparr>))
        [57] pending_hi)) = []
   \<and> received 10 (snd (message_finish
        (fst (disconnect (fst (message_begin state_c 9 20 hi_payload)) 10)) [57] pending_hi)) = []
   \<and> received 30 (snd (message_finish
        (fst (joinRoom (fst (message_begin state_c 9 20 hi_payload)) 9 30 \<lparr>rd_chatroomId = 7\<rparr>))
        [57] pending_hi)) = [MessageEv (messageData pending_hi [57])]"
proof -
  let ?s1 = "fst (message_begin state_c 9 20 hi_payload)"
  have b: "message_begin state_c 9 20 \<lparr>msg_chatroomId = 7, msg_content = Some [32, 104, 105]\<rparr> =
             (?s1, [], Some pending_hi)"
    using begin_hi by (simp add: hi_payload_def)
  have u: "socket_user ?s1 10 \<noteq> None" "socket_user ?s1 30 \<noteq> None"
    by (simp_all add: begin_hi) (simp_all add: state_c_eq)
  have m: "10 \<in> rooms state_c 7" "30 \<notin> rooms state_c 7"
    by (simp_all add: state_c_eq)
  note th = fanout_reads_live_membership [OF b, of "[57]" 10 30 9]
  from th u m have
    "received 10 (snd (message_finish ?s1 [57] pending_hi)) = [MessageEv (messageData pending_hi [57])]"
    "received 10 (snd (message_finish (fst (leaveRoom ?s1 10 \<lparr>rd_chatroomId = 7\<rparr>)) [57] pending_hi)) = []"
    "received 10 (snd (message_finish (fst (disconnect ?s1 10)) [57] pending_hi)) = []"
    "received 30 (snd (message_finish (fst (joinRoom ?s1 9 30 \<lparr>rd_chatroomId = 7\<rparr>)) [57] pending_hi)) =
       [MessageEv (messageData pending_hi [57])]"
    by blast+
  with m show ?thesis
    by (simp add: begin_hi)
qed

section \<open>Publishing without presence\<close>

text \<open>
  Claim C3 says that a publish from an authenticated connection that does not occupy the room
  fails with NotAMember, persisting and broadcasting nothing. The \<^verbatim>\<open>message\<close> handler never
  looks at the sender's presence. In \<open>state_a\<close> socket 10 is in no room; its message to
  chatroom 7 is stored and sent to socket 20, which is in the room.
\<close>

theorem publish_by_non_member_counterexample:
  "socket_user state_a 10 = Some alice_info \<and> 10 \<notin> rooms state_a 7 \<and> \<not> member_of state_a 7 10
   \<and> messages (db state_a) = []
   \<and> messages (db (fst (message state_a 9 [57] 10 hi_payload))) =
       [\<lparr>m_id = 1, m_chatroom_id = 7, m_user_id = 1, m_content = [104, 105], m_created_at = 9\<rparr>]
   \<and> snd (message state_a 9 [57] 10 hi_payload) =
       [({20}, MessageEv \<lparr>md_id = 1, md_userId = 1, md_nickname = [65, 108],
                           md_username = [97, 108], md_avatar = None, md_content = [104, 105],
                           md_timestamp = [57], md_chatroomId = 7\<rparr>)]"
  by (simp add: state_a_eq handler_defs deployment_defs hi_payload_def)

text \<open>
  Claim C3, amended. For every authenticated connection \<open>c\<close> and room \<open>r\<close> that \<open>c\<close> does not
  occupy, a publish whose content is not empty after trimming, to a chatroom of the store and
  by a user of the store, is accepted: the trimmed message is appended to the stored messages
  and sent to the sockets that are in \<open>r\<close>. There is no NotAMember failure.
\<close>

theorem publish_without_presence:
  assumes "socket_user s c = Some u"
    and "c \<notin> rooms s r" and "\<not> member_of s r c"
    and "trim content \<noteq> []"
    and "chatrooms (db s) r \<noteq> None" and "users (db s) (su_id u) \<noteq> None"
  shows "\<exists>d m. Message_create (db s) now
                  \<lparr>mi_chatroom_id = r, mi_user_id = su_id u, mi_content = trim content\<rparr> = Inr (d, m)
           \<and> messages d = messages (db s) @
                [\<lparr>m_id = next_message_id (db s), m_chatroom_id = r, m_user_id = su_id u,
                  m_content = trim content, m_created_at = now\<rparr>]
           \<and> message s now ts c \<lparr>msg_chatroomId = r, msg_content = Some content\<rparr> =
               (s\<lparr>db := d\<rparr>,
                [(rooms s r,
                  MessageEv \<lparr>md_id = cmsg_id m, md_userId = su_id u, md_nickname = su_nickname u,
                             md_username = su_username u, md_avatar = su_avatar u,
                             md_content = trim content, md_timestamp = ts, md_chatroomId = r\<rparr>)])"
proof -
  from assms(4) have ne: "content \<noteq> []" by (auto simp: trim_def)
  with assms show ?thesis
    by (simp add: message_def message_begin_def message_finish_def Message_create_def
        io_to_emit_def messageData_def)
qed

theorem publish_without_presence_witness:
  "socket_user state_a 10 = Some alice_info \<and> 10 \<notin> rooms state_a 7 \<and> \<not> member_of state_a 7 10
   \<and> trim [32, 104, 105] \<noteq> [] \<and> chatrooms (db state_a) 7 \<noteq> None
   \<and> users (db state_a) (su_id alice_info) \<noteq> None
   \<and> (\<exists>d m. Message_create (db state_a) 9
                \<lparr>mi_chatroom_id = 7, mi_user_id = su_id alice_info, mi_content = trim [32, 104, 105]\<rparr> =
                Inr (d, m)
         \<and> messages d = messages (db state_a) @
              [\<lparr>m_id = next_message_id (db state_a), m_chatroom_id = 7, m_user_id = su_id alice_info,
                m_content = trim [32, 104, 105], m_created_at = 9\<rparr>]
         \<and> message state_a 9 [57] 10 \<lparr>msg_chatroomId = 7, msg_content = Some [32, 104, 105]\<rparr> =
             (state_a\<lparr>db := d\<rparr>,
              [(rooms state_a 7,
                MessageEv \<lparr>md_id = cmsg_id m, md_userId = su_id alice_info,
                           md_nickname = su_nickname alice_info, md_username = su_username alice_info,
                           md_avatar = su_avatar alice_info, md_content = trim [32, 104, 105],
                           md_timestamp = [57], md_chatroomId = 7\<rparr>)]))"
proof -
  have h: "socket_user state_a 10 = Some alice_info" "10 \<notin> rooms state_a 7"
    "\<not> member_of state_a 7 10" "trim [32, 104, 105] \<noteq> []"
    "chatrooms (db state_a) 7 \<noteq> None" "users (db state_a) (su_id alice_info) \<noteq> None"
    by (simp_all add: state_a_eq member_of_def trim_def is_js_whitespace_def deployment_defs)
  from h publish_without_presence [OF h, of 9 "[57]"] show ?thesis
    by blast
qed

section \<open>Authenticating again\<close>

text \<open>
  Claim C4 says that a further authenticate on a bound connection fails with
  AlreadyAuthenticated and leaves the binding unchanged. The \<^verbatim>\<open>authenticate\<close> handler
  does not look at \<^verbatim>\<open>socket.user\<close>: socket 10, bound to user 1, authenticates with the
  id of user 2, is acknowledged and is bound to user 2 afterwards.
\<close>

theorem reauthenticate_counterexample:
  "socket_user state_a 10 = Some alice_info
   \<and> socket_user (fst (authenticate state_a 10 \<lparr>ad_id = 2\<rparr>)) 10 = Some bob_info
   \<and> onlineUsers (fst (authenticate state_a 10 \<lparr>ad_id = 2\<rparr>)) 10 = Some bob_info
   \<and> snd (authenticate state_a 10 \<lparr>ad_id = 2\<rparr>) = [({10}, Authenticated)]"
  by (simp add: state_a_eq handler_defs deployment_defs)

text \<open>
  Claim C4, amended. For every connection that already holds a bound identity, a further
  authenticate with the id of a user of the store succeeds: the connection (and its entry
  in the online-user registry) is bound to that user, whoever it was bound to, and
  \<^verbatim>\<open>authenticated\<close> is sent; with an id the store does not know it fails with the
  user-does-not-exist error and leaves the binding unchanged.
\<close>

theorem reauthenticate_rebinds:
  assumes "socket_user s c = Some u"
  shows "(users (db s) i = Some row \<longrightarrow>
            authenticate s c \<lparr>ad_id = i\<rparr> =
              (s\<lparr>socket_user := (socket_user s)(c \<mapsto>
                     \<lparr>su_id = ur_id row, su_nickname = ur_nickname row, su_username = ur_username row,
                      su_email = ur_email row, su_avatar = ur_avatar row\<rparr>),
                   onlineUsers := (onlineUsers s)(c \<mapsto>
                     \<lparr>su_id = ur_id row, su_nickname = ur_nickname row, su_username = ur_username row,
                      su_email = ur_email row, su_avatar = ur_avatar row\<rparr>)\<rparr>,
               [({c}, Authenticated)]))
       \<and> (users (db s) i = None \<longrightarrow>
            authenticate s c \<lparr>ad_id = i\<rparr> = (s, [({c}, Error UserNotExist)]))"
  by (simp add: authenticate_def User_findById_def socket_emit_def Let_def)

theorem reauthenticate_rebinds_witness:
  "socket_user state_a 10 = Some alice_info \<and> users (db state_a) 2 = Some bob
   \<and> socket_user (fst (authenticate state_a 10 \<lparr>ad_id = 2\<rparr>)) 10 =
       Some \<lparr>su_id = ur_id bob, su_nickname = ur_nickname bob, su_username = ur_username bob,
             su_email = ur_email bob, su_avatar = ur_avatar bob\<rparr>
   \<and> snd (authenticate state_a 10 \<lparr>ad_id = 2\<rparr>) = [({10}, Authenticated)]
   \<and> users (db state_a) 3 = None
   \<and> authenticate state_a 10 \<lparr>ad_id = 3\<rparr> = (state_a, [({10}, Error UserNotExist)])"
proof -
  have h: "socket_user state_a 10 = Some alice_info"
    and k: "users (db state_a) 2 = Some bob" "users (db state_a) 3 = None"
    by (simp_all add: state_a_eq db0_def)
  from reauthenticate_rebinds [OF h, of 2 bob] reauthenticate_rebinds [OF h, of 3 bob] h k
  show ?thesis by simp
qed

section \<open>Typing signals\<close>

text \<open>
  Claim C6 says that typing broadcasts are edge-triggered: a repeated \<open>true\<close> emits nothing,
  and \<open>false\<close> emits only if an entry existed. The \<^verbatim>\<open>typing\<close> handler emits
  \<^verbatim>\<open>typingUsers\<close> after every signal. Socket 10, in chatroom 7, signals \<open>true\<close> twice: the
  second signal, with its entry in place, emits again. And with no entry at all, its
  \<open>false\<close> emits as well.
\<close>

theorem typing_edge_triggered_counterexample:
  "has_typing_entry (fst (typing state_b 10 \<lparr>td_chatroomId = 7, td_isTyping = True\<rparr>)) 7 10
   \<and> snd (typing (fst (typing state_b 10 \<lparr>td_chatroomId = 7, td_isTyping = True\<rparr>)) 10
            \<lparr>td_chatroomId = 7, td_isTyping = True\<rparr>) =
       [({10, 20}, TypingUsers 7 [\<lparr>ti_id = 1, ti_nickname = [65, 108]\<rparr>])]
   \<and> \<not> has_typing_entry state_b 7 10
   \<and> snd (typing state_b 10 \<lparr>td_chatroomId = 7, td_isTyping = False\<rparr>) =
       [({10, 20}, TypingUsers 7 [])]"
  by (simp add: state_b_eq handler_defs deployment_defs)

text \<open>
  Claim C6, amended. Typing broadcasts are sent on every signal: for every authenticated
  connection \<open>c\<close>, setTyping(c, r, b) sets (\<open>b\<close> true) or removes (\<open>b\<close> false) the entry of
  \<open>c\<close> in the typing map of \<open>r\<close> and then emits one typing-list event, carrying the entries of
  that map in order, to the sockets in \<open>r\<close>, whether or not \<open>c\<close> had an entry before.
\<close>

theorem typing_emits_on_every_signal:
  assumes "socket_user s c = Some u"
  shows "\<exists>m. typingUsers (fst (typing s c \<lparr>td_chatroomId = r, td_isTyping = b\<rparr>)) r = Some m
           \<and> map_of m c = (if b then Some \<lparr>ti_id = su_id u, ti_nickname = su_nickname u\<rparr> else None)
           \<and> snd (typing s c \<lparr>td_chatroomId = r, td_isTyping = b\<rparr>) =
               [(rooms s r, TypingUsers r (map snd m))]"
  using assms
  by (simp add: typing_def io_to_emit_def Let_def AList.update_conv AList.delete_conv)

theorem typing_emits_on_every_signal_witness:
  "socket_user state_b 10 = Some alice_info
   \<and> (\<exists>m. typingUsers (fst (typing state_b 10 \<lparr>td_chatroomId = 7, td_isTyping = True\<rparr>)) 7 = Some m
         \<and> map_of m 10 = (if True then Some \<lparr>ti_id = su_id alice_info, ti_nickname = su_nickname alice_info\<rparr>
                           else None)
         \<and> snd (typing state_b 10 \<lparr>td_chatroomId = 7, td_isTyping = True\<rparr>) =
             [(rooms state_b 7, TypingUsers 7 (map snd m))])"
proof -
  have h: "socket_user state_b 10 = Some alice_info"
    by (simp add: state_b_eq)
  from h typing_emits_on_every_signal [OF h, of 7 True] show ?thesis
    by blast
qed

section \<open>Joining a room twice\<close>

text \<open>
  Claim C8 says that a second join of a room is idempotent and emits no duplicate Joined
  notification. The \<^verbatim>\<open>joinRoom\<close> handler does not look whether the socket is in the room
  already: socket 10, a member of chatroom 7 in \<open>state_b\<close>, joins again and socket 20
  receives \<^verbatim>\<open>userJoined\<close> for it once more.
\<close>

theorem rejoin_counterexample:
  "10 \<in> rooms state_b 7 \<and> member_of state_b 7 10
   \<and> received 20 (snd (joinRoom state_b 8 10 \<lparr>rd_chatroomId = 7\<rparr>)) =
       [UserJoined 1 [65, 108] [97, 108] ([65, 108] @ joined_suffix)]"
  by (simp add: state_b_eq handler_defs deployment_defs)

text \<open>
  Claim C8, amended. For every connection \<open>c\<close> already a member of room \<open>r\<close>, a second
  join(c, r) leaves the members of \<open>r\<close> unchanged (the Socket.IO room and \<^verbatim>\<open>chatroomUsers\<close>
  alike), but it is answered like a first one: the history and the member list are sent to
  \<open>c\<close> and a Joined notification is sent again to the other members of \<open>r\<close>.
\<close>

theorem rejoin_keeps_members_and_notifies_again:
  assumes "socket_user s c = Some u"
    and "Chatroom_findById (db s) r = Some chatroom"
    and "c \<in> rooms s r"
    and "map_of (chatroomUsers s) r = Some socketIds" and "c \<in> socketIds"
  shows "rooms (fst (joinRoom s now c \<lparr>rd_chatroomId = r\<rparr>)) = rooms s
       \<and> chatroomUsers (fst (joinRoom s now c \<lparr>rd_chatroomId = r\<rparr>)) = chatroomUsers s
       \<and> snd (joinRoom s now c \<lparr>rd_chatroomId = r\<rparr>) =
           [({c}, MessageHistory (Message_getByChatroom (db s) r 50)),
            ({c}, RoomMembers (Chatroom_getMembers (Chatroom_addMember (db s) now r (su_id u)) r)),
            (rooms s r - {c},
             UserJoined (su_id u) (su_nickname u) (su_username u) (su_nickname u @ joined_suffix))]"
proof -
  have ins: "insert c (rooms s r) = rooms s r" "insert c socketIds = socketIds"
    using assms by auto
  have upd: "AList.update r socketIds (chatroomUsers s) = chatroomUsers s"
    using assms(4) by (rule AList.update_triv)
  show ?thesis
    using assms ins upd
    by (simp add: joinRoom_def Let_def chatroomUsers_add_def socket_emit_def socket_to_emit_def)
qed

theorem rejoin_keeps_members_and_notifies_again_witness:
  "socket_user state_b 10 = Some alice_info \<and> Chatroom_findById (db state_b) 7 = Some lobby
   \<and> 10 \<in> rooms state_b 7 \<and> map_of (chatroomUsers state_b) 7 = Some {10, 20} \<and> 10 \<in> {10, 20::nat}
   \<and> rooms (fst (joinRoom state_b 8 10 \<lparr>rd_chatroomId = 7\<rparr>)) = rooms state_b
   \<and> chatroomUsers (fst (joinRoom state_b 8 10 \<lparr>rd_chatroomId = 7\<rparr>)) = chatroomUsers state_b
   \<and> snd (joinRoom state_b 8 10 \<lparr>rd_chatroomId = 7\<rparr>) =
       [({10}, MessageHistory (Message_getByChatroom (db state_b) 7 50)),
        ({10}, RoomMembers (Chatroom_getMembers
                 (Chatroom_addMember (db state_b) 8 7 (su_id alice_info)) 7)),
        (rooms state_b 7 - {10},
         UserJoined (su_id alice_info) (su_nickname alice_info) (su_username alice_info)
           (su_nickname alice_info @ joined_suffix))]"
proof -
  have h: "socket_user state_b 10 = Some alice_info" "Chatroom_findById (db state_b) 7 = Some lobby"
    "10 \<in> rooms state_b 7" "map_of (chatroomUsers state_b) 7 = Some {10, 20}" "10 \<in> {10, 20::nat}"
    by (simp_all add: state_b_eq Chatroom_findById_def db0_def)
  from h rejoin_keeps_members_and_notifies_again [OF h, of 8] show ?thesis
    by blast
qed

section \<open>Failed preconditions\<close>

text \<open>
  Claim C9 says that every failed precondition of authenticate, joinRoom, publish and
  setTyping is surfaced to the caller as an \<^verbatim>\<open>error\<close> event, empty content being the
  single exception. The \<^verbatim>\<open>typing\<close> handler returns at once when \<^verbatim>\<open>socket.user\<close> is not
  set: a typing signal from socket 99, which never authenticated, changes nothing and is
  answered by nothing.
\<close>

theorem unauthenticated_typing_counterexample:
  "socket_user state_a 99 = None
   \<and> typing state_a 99 \<lparr>td_chatroomId = 7, td_isTyping = True\<rparr> = (state_a, [])"
  by (simp add: state_a_eq typing_def)

text \<open>
  Claim C9, amended. The failed preconditions of authenticate (unknown user), joinRoom (not
  authenticated, unknown chatroom) and publish (not authenticated) are surfaced to the
  originating connection, and to it alone, as an \<^verbatim>\<open>error\<close> event, and change no state.
  Two failures are dropped without any event and without any change of state: a publish from
  an authenticated connection whose content is missing or trims to empty, and a typing signal
  (as a leaveRoom) from a connection that is not authenticated.
\<close>

theorem failed_preconditions_reported_or_dropped:
  "(users (db s) i = None \<longrightarrow>
      authenticate s c \<lparr>ad_id = i\<rparr> = (s, [({c}, Error UserNotExist)]))
   \<and> (socket_user s c = None \<longrightarrow>
        joinRoom s now c jd = (s, [({c}, Error PleaseLogin)]))
   \<and> (socket_user s c \<noteq> None \<and> chatrooms (db s) (rd_chatroomId jd) = None \<longrightarrow>
        joinRoom s now c jd = (s, [({c}, Error ChatroomNotExist)]))
   \<and> (socket_user s c = None \<longrightarrow>
        message s now ts c md = (s, [({c}, Error PleaseLogin)]))
   \<and> (socket_user s c \<noteq> None
        \<and> (msg_content md = None \<or> (\<exists>content. msg_content md = Some content \<and> trim content = [])) \<longrightarrow>
        message s now ts c md = (s, []))
   \<and> (socket_user s c = None \<longrightarrow> typing s c td = (s, []))
   \<and> (socket_user s c = None \<longrightarrow> leaveRoom s c ld = (s, []))"
  by (auto simp add: authenticate_def joinRoom_def message_def message_begin_def typing_def
      leaveRoom_def User_findById_def Chatroom_findById_def socket_emit_def Let_def
      split: option.splits)

text \<open>
  Socket 99 is not authenticated in \<open>state_a\<close> and socket 10 is; the store has no user 3
  and no chatroom 8; the content is two spaces.
\<close>

theorem failed_preconditions_reported_or_dropped_witness:
  "users (db state_a) 3 = None
   \<and> authenticate state_a 99 \<lparr>ad_id = 3\<rparr> = (state_a, [({99}, Error UserNotExist)])
   \<and> socket_user state_a 99 = None
   \<and> joinRoom state_a 8 99 \<lparr>rd_chatroomId = 7\<rparr> = (state_a, [({99}, Error PleaseLogin)])
   \<and> message state_a 8 [57] 99 hi_payload = (state_a, [({99}, Error PleaseLogin)])
   \<and> typing state_a 99 \<lparr>td_chatroomId = 7, td_isTyping = True\<rparr> = (state_a, [])
   \<and> leaveRoom state_a 99 \<lparr>rd_chatroomId = 7\<rparr> = (state_a, [])
   \<and> socket_user state_a 10 \<noteq> None \<and> chatrooms (db state_a) 8 = None
   \<and> joinRoom state_a 8 10 \<lparr>rd_chatroomId = 8\<rparr> = (state_a, [({10}, Error ChatroomNotExist)])
   \<and> trim [32, 32] = []
   \<and> message state_a 8 [57] 10 \<lparr>msg_chatroomId = 7, msg_content = Some [32, 32]\<rparr> = (state_a, [])"
proof -
  have h: "users (db state_a) 3 = None" "socket_user state_a 99 = None"
    "socket_user state_a 10 \<noteq> None" "chatrooms (db state_a) 8 = None" "trim [32, 32] = []"
    by (simp_all add: state_a_eq db0_def trim_def is_js_whitespace_def)
  from h
    failed_preconditions_reported_or_dropped [of state_a 3 99 8 "\<lparr>rd_chatroomId = 7\<rparr>" "[57]"
      hi_payload "\<lparr>td_chatroomId = 7, td_isTyping = True\<rparr>" "\<lparr>rd_chatroomId = 7\<rparr>"]
    failed_preconditions_reported_or_dropped [of state_a 3 10 8 "\<lparr>rd_chatroomId = 8\<rparr>" "[57]"
      "\<lparr>msg_chatroomId = 7, msg_content = Some [32, 32]\<rparr>"
      "\<lparr>td_chatroomId = 7, td_isTyping = True\<rparr>" "\<lparr>rd_chatroomId = 7\<rparr>"]
  show ?thesis by simp
qed

section \<open>The history sent on a join\<close>

lemma sorted_desc_rev:
  "sorted (map (\<lambda>h. - int (k h)) zs) \<Longrightarrow> sorted (map k (rev zs))"
  by (induction zs) (auto simp add: sorted_append)

lemma history_sorted: "sorted (map h_created_at (Message_getByChatroom d r n))"
proof -
  have "sorted (map (\<lambda>h. - int (h_created_at h)) (order_by_created_at_desc (room_messages d r)))"
    by (simp add: order_by_created_at_desc_def)
  then have "sorted (map (\<lambda>h. - int (h_created_at h))
                 (take (safeLimit n) (order_by_created_at_desc (room_messages d r))))"
    by (simp add: take_map [symmetric] sorted_wrt_take)
  then show ?thesis
    unfolding Message_getByChatroom_def by (rule sorted_desc_rev)
qed

lemma history_most_recent:
  "\<exists>older. mset (Message_getByChatroom d r n) + mset older = mset (room_messages d r)
     \<and> (\<forall>x \<in> set (Message_getByChatroom d r n). \<forall>y \<in> set older. h_created_at y \<le> h_created_at x)"
proof -
  let ?ys = "order_by_created_at_desc (room_messages d r)"
  let ?k = "safeLimit n"
  have s: "sorted (map (\<lambda>h. - int (h_created_at h)) (take ?k ?ys @ drop ?k ?ys))"
    by (simp add: order_by_created_at_desc_def)
  have m: "mset (rev (take ?k ?ys)) + mset (drop ?k ?ys) = mset (room_messages d r)"
  proof -
    have "mset (rev (take ?k ?ys)) + mset (drop ?k ?ys) = mset (take ?k ?ys @ drop ?k ?ys)"
      by (simp only: mset_rev mset_append)
    also have "\<dots> = mset ?ys" by simp
    also have "\<dots> = mset (room_messages d r)" by (simp add: order_by_created_at_desc_def)
    finally show ?thesis .
  qed
  have o: "\<forall>x \<in> set (rev (take ?k ?ys)). \<forall>y \<in> set (drop ?k ?ys). h_created_at y \<le> h_created_at x"
    using s unfolding map_append sorted_append by auto
  from m o show ?thesis
    unfolding Message_getByChatroom_def by blast
qed


lemma state_d_eq: "state_d =
  \<lparr>db = db0\<lparr>chatroom_members := [\<lparr>cm_chatroom_id = 7, cm_user_id = 2, cm_joined_at = 5\<rparr>,
        \<lparr>cm_chatroom_id = 7, cm_user_id = 1, cm_joined_at = 6\<rparr>],
      messages := [\<lparr>m_id = 1, m_chatroom_id = 7, m_user_id = 2, m_content = [104, 105], m_created_at = 9\<rparr>,
        \<lparr>m_id = 2, m_chatroom_id = 7, m_user_id = 1, m_content = [111, 107], m_created_at = 12\<rparr>,
        \<lparr>m_id = 3, m_chatroom_id = 7, m_user_id = 2, m_content = [121, 111], m_created_at = 11\<rparr>],
      next_message_id := 4\<rparr>,
   socket_user = [10 \<mapsto> alice_info, 20 \<mapsto> bob_info, 30 \<mapsto> alice_info],
   rooms = (\<lambda>r. {})(7 := {10, 20}),
   onlineUsers = [10 \<mapsto> alice_info, 20 \<mapsto> bob_info, 30 \<mapsto> alice_info],
   chatroomUsers = [(7, {10, 20})], typingUsers = Map.empty\<rparr>"
  by (simp add: state_d_def state_c_eq handler_defs deployment_defs hi_payload_def)

lemma history_d: "Message_getByChatroom (db state_d) 7 50 =
  [\<lparr>h_id = 1, h_chatroom_id = 7, h_user_id = 2, h_content = [104, 105], h_created_at = 9,
    h_nickname = [66, 111], h_username = [98, 111], h_avatar = None\<rparr>,
   \<lparr>h_id = 3, h_chatroom_id = 7, h_user_id = 2, h_content = [121, 111], h_created_at = 11,
    h_nickname = [66, 111], h_username = [98, 111], h_avatar = None\<rparr>,
   \<lparr>h_id = 2, h_chatroom_id = 7, h_user_id = 1, h_content = [111, 107], h_created_at = 12,
    h_nickname = [65, 108], h_username = [97, 108], h_avatar = None\<rparr>]"
  by (simp add: state_d_eq Message_getByChatroom_def room_messages_def order_by_created_at_desc_def
      safeLimit_def message_join_def List.map_filter_def deployment_defs)

text \<open>
  The rows of \<^verbatim>\<open>messages\<close> that the query of \<^verbatim>\<open>Message.getByChatroom\<close> selects, read
  back from the rows it returns: the messages of the room whose author is in \<^verbatim>\<open>users\<close>,
  in table order.
\<close>

lemma room_messages_stored:
  "map (\<lambda>x. \<lparr>m_id = h_id x, m_chatroom_id = h_chatroom_id x, m_user_id = h_user_id x,
              m_content = h_content x, m_created_at = h_created_at x\<rparr>) (room_messages d r) =
   filter (\<lambda>m. m_chatroom_id m = r \<and> users d (m_user_id m) \<noteq> None) (messages d)"
proof -
  have "map (\<lambda>x. \<lparr>m_id = h_id x, m_chatroom_id = h_chatroom_id x, m_user_id = h_user_id x,
              m_content = h_content x, m_created_at = h_created_at x\<rparr>)
          (List.map_filter (message_join d) (filter (\<lambda>m. m_chatroom_id m = r) ms)) =
        filter (\<lambda>m. m_chatroom_id m = r \<and> users d (m_user_id m) \<noteq> None) ms" for ms
    by (induction ms) (auto simp add: List.map_filter_simps message_join_def split: option.splits)
  then show ?thesis by (simp add: room_messages_def)
qed

lemma room_messages_rows:
  assumes "x \<in> set (room_messages d r)"
  shows "\<exists>m \<in> set (messages d). \<exists>a. m_chatroom_id m = r \<and> users d (m_user_id m) = Some a
           \<and> x = \<lparr>h_id = m_id m, h_chatroom_id = r, h_user_id = m_user_id m,
                   h_content = m_content m, h_created_at = m_created_at m,
                   h_nickname = ur_nickname a, h_username = ur_username a,
                   h_avatar = ur_avatar a\<rparr>"
  using assms
  by (auto simp add: room_messages_def List.map_filter_def message_join_def split: option.splits)

lemma history_subset: "set (Message_getByChatroom d r n) \<subseteq> set (room_messages d r)"
proof -
  have "set (take (safeLimit n) (order_by_created_at_desc (room_messages d r)))
          \<subseteq> set (order_by_created_at_desc (room_messages d r))"
    by (rule set_take_subset)
  then show ?thesis
    by (simp add: Message_getByChatroom_def order_by_created_at_desc_def)
qed

lemma history_length_eq:
  "length (Message_getByChatroom d r n) = min (safeLimit n) (length (room_messages d r))"
  by (simp add: Message_getByChatroom_def order_by_created_at_desc_def)


lemma history_most_recent_stored:
  "\<exists>older. mset (map (\<lambda>x. \<lparr>m_id = h_id x, m_chatroom_id = h_chatroom_id x, m_user_id = h_user_id x,
                             m_content = h_content x, m_created_at = h_created_at x\<rparr>)
                    (Message_getByChatroom d r n)) + mset older =
            mset (filter (\<lambda>m. m_chatroom_id m = r \<and> users d (m_user_id m) \<noteq> None) (messages d))
     \<and> (\<forall>x \<in> set (Message_getByChatroom d r n). \<forall>y \<in> set older. m_created_at y \<le> h_created_at x)"
proof -
  let ?p = "\<lambda>x. \<lparr>m_id = h_id x, m_chatroom_id = h_chatroom_id x, m_user_id = h_user_id x,
                   m_content = h_content x, m_created_at = h_created_at x\<rparr>"
  from history_most_recent [of d r n] obtain older where
    m: "mset (Message_getByChatroom d r n) + mset older = mset (room_messages d r)"
    and o: "\<forall>x \<in> set (Message_getByChatroom d r n). \<forall>y \<in> set older. h_created_at y \<le> h_created_at x"
    by blast
  from m have "mset (map ?p (Message_getByChatroom d r n @ older)) = mset (map ?p (room_messages d r))"
    by (simp only: mset_map mset_append)
  then have "mset (map ?p (Message_getByChatroom d r n)) + mset (map ?p older) =
               mset (filter (\<lambda>m. m_chatroom_id m = r \<and> users d (m_user_id m) \<noteq> None) (messages d))"
    by (simp only: room_messages_stored map_append mset_append)
  moreover from o have
    "\<forall>x \<in> set (Message_getByChatroom d r n). \<forall>y \<in> set (map ?p older). m_created_at y \<le> h_created_at x"
    by auto
  ultimately show ?thesis by blast
qed

lemma room_f: "room_messages (db state_f) 7 =
  map (\<lambda>i. \<lparr>h_id = i, h_chatroom_id = 7, h_user_id = 2, h_content = [104, 105],
              h_created_at = 1000 + i, h_nickname = [66, 111], h_username = [98, 111],
              h_avatar = None\<rparr>) [11..<63]"
  by (simp add: state_f_def state_c_eq room_messages_def List.map_filter_def message_join_def
      deployment_defs comp_def filter_map)

lemma history_f: "map h_id (Message_getByChatroom (db state_f) 7 50) = [13..<63]"
  unfolding Message_getByChatroom_def room_f order_by_created_at_desc_def safeLimit_def
  by (simp add: upt_rec_numeral)

lemma stored_f:
  "length (filter (\<lambda>m. m_chatroom_id m = 7 \<and> users (db state_f) (m_user_id m) \<noteq> None)
             (messages (db state_f))) = 52"
  by (simp add: state_f_def state_c_eq db0_def filter_map comp_def)

text \<open>
  Claim C10. On every successful join(c, r), that is when \<open>c\<close> is authenticated and the store
  knows the chatroom, exactly one \<^verbatim>\<open>messageHistory\<close> event is sent, to the joining connection
  only. It carries the room's persisted messages, at most the 50 most recent, in ascending
  order of their creation time. With the stored messages of the room being the rows of
  \<^verbatim>\<open>messages\<close> with that chatroom id whose author is in \<^verbatim>\<open>users\<close> (the query joins the
  two tables):
  \<^item> the history has 50 rows, or as many as there are stored messages of the room if these
    are fewer;
  \<^item> its rows are in ascending order of \<^verbatim>\<open>created_at\<close>;
  \<^item> each row is a stored message of the room, with its id, author, content and creation
    time, and with the nickname, username and avatar of its author;
  \<^item> the history together with the messages left out is the stored messages of the room, each
    once, and every message left out was created no later than each one that is sent.
\<close>

theorem join_sends_history_once:
  assumes "socket_user s c = Some u" and "Chatroom_findById (db s) r = Some chatroom"
  shows "filter (\<lambda>e. is_history_event (snd e)) (snd (joinRoom s now c \<lparr>rd_chatroomId = r\<rparr>)) =
           [({c}, MessageHistory (Message_getByChatroom (db s) r 50))]
       \<and> length (Message_getByChatroom (db s) r 50) =
           min 50 (length (filter (\<lambda>m. m_chatroom_id m = r \<and> users (db s) (m_user_id m) \<noteq> None)
                             (messages (db s))))
       \<and> sorted (map h_created_at (Message_getByChatroom (db s) r 50))
       \<and> (\<forall>x \<in> set (Message_getByChatroom (db s) r 50).
             \<exists>m \<in> set (messages (db s)). \<exists>a.
               m_chatroom_id m = r \<and> users (db s) (m_user_id m) = Some a
               \<and> x = \<lparr>h_id = m_id m, h_chatroom_id = r, h_user_id = m_user_id m,
                       h_content = m_content m, h_created_at = m_created_at m,
                       h_nickname = ur_nickname a, h_username = ur_username a,
                       h_avatar = ur_avatar a\<rparr>)
       \<and> (\<exists>older.
             mset (map (\<lambda>x. \<lparr>m_id = h_id x, m_chatroom_id = h_chatroom_id x, m_user_id = h_user_id x,
                              m_content = h_content x, m_created_at = h_created_at x\<rparr>)
                     (Message_getByChatroom (db s) r 50)) + mset older =
               mset (filter (\<lambda>m. m_chatroom_id m = r \<and> users (db s) (m_user_id m) \<noteq> None)
                       (messages (db s)))
             \<and> (\<forall>x \<in> set (Message_getByChatroom (db s) r 50). \<forall>y \<in> set older.
                    m_created_at y \<le> h_created_at x))"
proof -
  have e: "filter (\<lambda>e. is_history_event (snd e)) (snd (joinRoom s now c \<lparr>rd_chatroomId = r\<rparr>)) =
           [({c}, MessageHistory (Message_getByChatroom (db s) r 50))]"
    using assms by (simp add: joinRoom_def Let_def socket_emit_def socket_to_emit_def)
  have "length (room_messages (db s) r) =
          length (filter (\<lambda>m. m_chatroom_id m = r \<and> users (db s) (m_user_id m) \<noteq> None)
                    (messages (db s)))"
    using arg_cong [OF room_messages_stored [of "db s" r], of length] by simp
  then have n: "length (Message_getByChatroom (db s) r 50) =
           min 50 (length (filter (\<lambda>m. m_chatroom_id m = r \<and> users (db s) (m_user_id m) \<noteq> None)
                             (messages (db s))))"
    by (simp add: history_length_eq safeLimit_def)
  have rows: "\<forall>x \<in> set (Message_getByChatroom (db s) r 50).
             \<exists>m \<in> set (messages (db s)). \<exists>a.
               m_chatroom_id m = r \<and> users (db s) (m_user_id m) = Some a
               \<and> x = \<lparr>h_id = m_id m, h_chatroom_id = r, h_user_id = m_user_id m,
                       h_content = m_content m, h_created_at = m_created_at m,
                       h_nickname = ur_nickname a, h_username = ur_username a,
                       h_avatar = ur_avatar a\<rparr>"
    using history_subset [of "db s" r 50] room_messages_rows [of _ "db s" r] by blast
  from e n rows history_sorted [of "db s" r 50] history_most_recent_stored [of "db s" r 50]
  show ?thesis by blast
qed
text \<open>
  Socket 30 joins chatroom 7 in \<open>state_f\<close>, where the room has 52 stored messages: it alone
  is sent a history, of 50 rows, the messages 13 to 62 in this order; the two oldest are left
  out. In \<open>state_d\<close> it is sent the three messages in the order of their stamps 9, 11, 12
  (they were stored in the order 9, 12, 11).
\<close>

theorem join_sends_history_once_witness:
  "socket_user state_f 30 = Some alice_info \<and> Chatroom_findById (db state_f) 7 = Some lobby
   \<and> length (messages (db state_f)) = 52
   \<and> filter (\<lambda>e. is_history_event (snd e)) (snd (joinRoom state_f 2000 30 \<lparr>rd_chatroomId = 7\<rparr>)) =
       [({30}, MessageHistory (Message_getByChatroom (db state_f) 7 50))]
   \<and> length (Message_getByChatroom (db state_f) 7 50) = 50
   \<and> map h_id (Message_getByChatroom (db state_f) 7 50) = [13..<63]
   \<and> socket_user state_d 30 = Some alice_info \<and> Chatroom_findById (db state_d) 7 = Some lobby
   \<and> filter (\<lambda>e. is_history_event (snd e)) (snd (joinRoom state_d 13 30 \<lparr>rd_chatroomId = 7\<rparr>)) =
       [({30}, MessageHistory (Message_getByChatroom (db state_d) 7 50))]
   \<and> map h_id (Message_getByChatroom (db state_d) 7 50) = [1, 3, 2]
   \<and> map h_created_at (Message_getByChatroom (db state_d) 7 50) = [9, 11, 12]"
proof -
  have f: "socket_user state_f 30 = Some alice_info" "Chatroom_findById (db state_f) 7 = Some lobby"
    by (simp_all add: state_f_def state_c_eq Chatroom_findById_def db0_def)
  have n: "length (messages (db state_f)) = 52"
    by (simp add: state_f_def)
  have d: "socket_user state_d 30 = Some alice_info" "Chatroom_findById (db state_d) 7 = Some lobby"
    by (simp_all add: state_d_eq Chatroom_findById_def db0_def)
  note th = join_sends_history_once [OF f, of 2000, unfolded stored_f]
  from th have
    "filter (\<lambda>e. is_history_event (snd e)) (snd (joinRoom state_f 2000 30 \<lparr>rd_chatroomId = 7\<rparr>)) =
       [({30}, MessageHistory (Message_getByChatroom (db state_f) 7 50))]"
    "length (Message_getByChatroom (db state_f) 7 50) = min 50 52"
    by blast+
  then have
    "filter (\<lambda>e. is_history_event (snd e)) (snd (joinRoom state_f 2000 30 \<lparr>rd_chatroomId = 7\<rparr>)) =
       [({30}, MessageHistory (Message_getByChatroom (db state_f) 7 50))]"
    "length (Message_getByChatroom (db state_f) 7 50) = 50"
    by simp_all
  moreover from join_sends_history_once [OF d, of 13] have
    "filter (\<lambda>e. is_history_event (snd e)) (snd (joinRoom state_d 13 30 \<lparr>rd_chatroomId = 7\<rparr>)) =
       [({30}, MessageHistory (Message_getByChatroom (db state_d) 7 50))]"
    by blast
  ultimately show ?thesis
    using f n d by (simp add: history_f history_d)
qed

section \<open>Disconnecting\<close>

text \<open>The three results of the loop of the \<^verbatim>\<open>disconnect\<close> handler, one by one.\<close>

lemma disconnect_rooms_sets:
  "fst (disconnect_rooms sid user rms cu tu) = map (\<lambda>(r, ids). (r, ids - {sid})) cu"
  by (induction cu arbitrary: tu) (auto simp add: Let_def case_prod_beta)

lemma disconnect_rooms_typing_Cons:
  "fst (snd (disconnect_rooms sid user rms ((r, ids) # rest) tu)) =
     fst (snd (disconnect_rooms sid user rms rest
       (if sid \<in> ids
        then (case tu r of None \<Rightarrow> tu | Some m \<Rightarrow> tu(r \<mapsto> AList.delete sid m))
        else tu)))"
  by (simp add: Let_def case_prod_beta split: option.splits)

lemma disconnect_rooms_emissions_Cons:
  "snd (snd (disconnect_rooms sid user rms ((r, ids) # rest) tu)) =
     (if sid \<in> ids
      then (case tu r of
              None \<Rightarrow> []
            | Some m \<Rightarrow> [(rms r - {sid}, TypingUsers r (map snd (AList.delete sid m)))])
           @ [(rms r - {sid},
               UserLeft (su_id user) (su_nickname user) (su_nickname user @ left_suffix))]
           @ snd (snd (disconnect_rooms sid user rms rest
               (case tu r of None \<Rightarrow> tu | Some m \<Rightarrow> tu(r \<mapsto> AList.delete sid m))))
      else snd (snd (disconnect_rooms sid user rms rest tu)))"
  by (simp add: Let_def case_prod_beta split: option.splits)

lemma disconnect_rooms_excludes_self:
  "\<forall>e \<in> set (snd (snd (disconnect_rooms sid user rms cu tu))). sid \<notin> fst e"
proof (induction cu arbitrary: tu)
  case Nil
  show ?case by simp
next
  case (Cons p cu)
  obtain r ids where p: "p = (r, ids)" by (cases p)
  show ?case
    unfolding p disconnect_rooms_emissions_Cons
    using Cons.IH by (auto split: option.splits)
qed

lemma disconnect_emissions:
  "snd (disconnect s sid) =
     (case socket_user s sid of
        None \<Rightarrow> []
      | Some user \<Rightarrow>
          snd (snd (disconnect_rooms sid user (\<lambda>r. rooms s r - {sid}) (chatroomUsers s)
                      (typingUsers s))))"
  by (simp add: disconnect_def Let_def case_prod_beta split: option.splits)

lemma disconnect_rooms_keeps_others:
  assumes "c \<noteq> sid" and "tu r = Some m" and "map_of m c \<noteq> None"
  shows "\<exists>m'. fst (snd (disconnect_rooms sid user rms cu tu)) r = Some m' \<and> map_of m' c \<noteq> None"
  using assms
proof (induction cu arbitrary: tu m)
  case Nil
  then show ?case by simp
next
  case (Cons p cu)
  obtain r' ids where p: "p = (r', ids)" by (cases p)
  let ?tu1 = "if sid \<in> ids
              then (case tu r' of None \<Rightarrow> tu | Some m1 \<Rightarrow> tu(r' \<mapsto> AList.delete sid m1))
              else tu"
  have "\<exists>m2. ?tu1 r = Some m2 \<and> map_of m2 c \<noteq> None"
    using Cons.prems by (auto simp add: AList.delete_conv split: option.splits)
  then obtain m2 where m2: "?tu1 r = Some m2" "map_of m2 c \<noteq> None" by blast
  from Cons.IH [of ?tu1 m2, OF Cons.prems(1) m2]
  show ?case unfolding p disconnect_rooms_typing_Cons .
qed


section \<open>Typing entries over time\<close>

lemma typingUsers_authenticate: "typingUsers (fst (authenticate s sid d)) = typingUsers s"
  by (simp add: authenticate_def Let_def split: option.splits)

lemma typingUsers_joinRoom: "typingUsers (fst (joinRoom s now sid d)) = typingUsers s"
  by (simp add: joinRoom_def Let_def split: option.splits)

lemma typingUsers_message: "typingUsers (fst (message s now ts sid d)) = typingUsers s"
  by (simp add: message_def message_begin_def message_finish_def
      split: option.splits sum.splits prod.splits)

lemma typingUsers_leaveRoom: "typingUsers (fst (leaveRoom s sid d)) = typingUsers s"
  by (simp add: leaveRoom_def Let_def split: option.splits)

lemma typing_keeps_entry:
  assumes "has_typing_entry s r c"
    and "\<not> (sid = c \<and> td_chatroomId d = r \<and> \<not> td_isTyping d)"
  shows "has_typing_entry (fst (typing s sid d)) r c"
  using assms
  by (auto simp add: typing_def has_typing_entry_def Let_def AList.update_conv AList.delete_conv
      split: option.splits)

lemma disconnect_keeps_entry:
  assumes "has_typing_entry s r c" and "sid \<noteq> c"
  shows "has_typing_entry (fst (disconnect s sid)) r c"
proof -
  from assms(1) obtain m where m: "typingUsers s r = Some m" "map_of m c \<noteq> None"
    by (auto simp add: has_typing_entry_def split: option.splits)
  show ?thesis
  proof (cases "socket_user s sid")
    case None
    with m show ?thesis by (simp add: disconnect_def has_typing_entry_def)
  next
    case (Some user)
    from assms(2) have "c \<noteq> sid" by simp
    from disconnect_rooms_keeps_others [where tu = "typingUsers s" and user = user
          and rms = "\<lambda>r. rooms s r - {sid}" and cu = "chatroomUsers s", OF this m]
    show ?thesis using Some
      by (auto simp add: disconnect_def has_typing_entry_def split: prod.splits)
  qed
qed

lemma step_keeps_entry:
  assumes "has_typing_entry s r c"
    and "ev \<noteq> Typing c \<lparr>td_chatroomId = r, td_isTyping = False\<rparr>" and "ev \<noteq> Disconnect c"
  shows "has_typing_entry (fst (step s ev)) r c"
proof (cases ev)
  case (Typing sid d)
  with assms(2) have "\<not> (sid = c \<and> td_chatroomId d = r \<and> \<not> td_isTyping d)"
    by (cases d) auto
  with assms(1) Typing show ?thesis by (simp add: typing_keeps_entry)
next
  case (Disconnect sid)
  with assms show ?thesis by (simp add: disconnect_keeps_entry)
qed (use assms(1) in \<open>simp_all add: has_typing_entry_def typingUsers_authenticate
      typingUsers_joinRoom typingUsers_message typingUsers_leaveRoom\<close>)

lemma run_Cons_state: "fst (run s (ev # evs)) = fst (run (fst (step s ev)) evs)"
  by (simp add: case_prod_beta)

lemma run_keeps_entry:
  assumes "has_typing_entry s r c"
    and "\<forall>ev \<in> set evs. ev \<noteq> Typing c \<lparr>td_chatroomId = r, td_isTyping = False\<rparr> \<and> ev \<noteq> Disconnect c"
  shows "has_typing_entry (fst (run s evs)) r c"
  using assms
proof (induction evs arbitrary: s)
  case Nil
  then show ?case by simp
next
  case (Cons ev evs)
  from Cons.prems have "has_typing_entry (fst (step s ev)) r c"
    by (simp add: step_keeps_entry)
  from Cons.IH [OF this] Cons.prems(2) show ?case
    unfolding run_Cons_state by simp
qed


text \<open>
  Claim C5 says that a typing entry expires by itself: with no further signal within the idle
  window the core removes the entry and emits the change, no stop signal being needed. The
  server sets no timer; only a handler changes its state. In \<open>idle_run\<close>, from \<open>state_b\<close>
  (reached at time 6), socket 10 signals typing and then stays silent. When the store's clock
  reads 1000 socket 20 publishes and then signals typing: the entry of socket 10 is still in
  the list that is broadcast, no event has removed it, and it is in the typing map at the end.
\<close>

theorem typing_self_expiry_counterexample:
  "snd (run state_b idle_run) =
     [({10, 20}, TypingUsers 7 [\<lparr>ti_id = 1, ti_nickname = [65, 108]\<rparr>]),
      ({10, 20}, MessageEv \<lparr>md_id = 1, md_userId = 2, md_nickname = [66, 111],
                            md_username = [98, 111], md_avatar = None, md_content = [104, 105],
                            md_timestamp = [57], md_chatroomId = 7\<rparr>),
      ({10, 20}, TypingUsers 7 [\<lparr>ti_id = 1, ti_nickname = [65, 108]\<rparr>,
                               \<lparr>ti_id = 2, ti_nickname = [66, 111]\<rparr>])]
   \<and> m_created_at (last (messages (db (fst (run state_b idle_run))))) = 1000
   \<and> has_typing_entry (fst (run state_b idle_run)) 7 10"
  by (simp add: idle_run_def state_b_eq handler_defs deployment_defs hi_payload_def)

text \<open>
  Claim C5, amended. A typing entry does not expire on the server: after setTyping(c, r, true)
  from an authenticated connection, the entry of \<open>c\<close> in \<open>r\<close> is in place after every
  sequence of events that contains neither setTyping(c, r, false) nor the disconnect of \<open>c\<close>,
  however late these events are handled. The core sets no timer and removes no entry on
  its own: the idle timeout is the client's, which sends an explicit stop signal.
\<close>

theorem typing_entry_stays_until_stopped:
  assumes "socket_user s c = Some u"
    and "\<forall>ev \<in> set evs. ev \<noteq> Typing c \<lparr>td_chatroomId = r, td_isTyping = False\<rparr> \<and> ev \<noteq> Disconnect c"
  shows "has_typing_entry (fst (run (fst (typing s c \<lparr>td_chatroomId = r, td_isTyping = True\<rparr>)) evs)) r c"
proof -
  have "has_typing_entry (fst (typing s c \<lparr>td_chatroomId = r, td_isTyping = True\<rparr>)) r c"
    using assms(1) by (simp add: typing_def has_typing_entry_def Let_def AList.update_conv)
  then show ?thesis using assms(2) by (rule run_keeps_entry)
qed

theorem typing_entry_stays_until_stopped_witness:
  "socket_user state_b 10 = Some alice_info
   \<and> list_all (\<lambda>ev. ev \<noteq> Typing 10 \<lparr>td_chatroomId = 7, td_isTyping = False\<rparr> \<and> ev \<noteq> Disconnect 10)
       (tl idle_run)
   \<and> has_typing_entry
       (fst (run (fst (typing state_b 10 \<lparr>td_chatroomId = 7, td_isTyping = True\<rparr>)) (tl idle_run))) 7 10"
proof -
  have h: "socket_user state_b 10 = Some alice_info"
    by (simp add: state_b_eq)
  have k: "\<forall>ev \<in> set (tl idle_run).
             ev \<noteq> Typing 10 \<lparr>td_chatroomId = 7, td_isTyping = False\<rparr> \<and> ev \<noteq> Disconnect 10"
    by (simp add: idle_run_def)
  from typing_entry_stays_until_stopped [OF h k] h k show ?thesis
    by (simp add: list_all_iff)
qed

section \<open>Events about a connection's own actions\<close>

text \<open>
  Claim C7 says that a connection never receives a \<^verbatim>\<open>userJoined\<close>, \<^verbatim>\<open>userLeft\<close> or
  typing-change event that describes its own action. The \<^verbatim>\<open>typing\<close> handler sends the
  typing list with \<^verbatim>\<open>io.to(room)\<close>, to all sockets of the room: socket 10, in chatroom 7,
  signals typing and receives the list with its own entry.
\<close>

theorem typing_self_exclusion_counterexample:
  "10 \<in> rooms state_b 7
   \<and> received 10 (snd (typing state_b 10 \<lparr>td_chatroomId = 7, td_isTyping = True\<rparr>)) =
       [TypingUsers 7 [\<lparr>ti_id = 1, ti_nickname = [65, 108]\<rparr>]]"
  by (simp add: state_b_eq handler_defs deployment_defs)

text \<open>
  Claim C7, amended. For every connection \<open>c\<close>: \<open>c\<close> never receives a \<^verbatim>\<open>userJoined\<close> or
  \<^verbatim>\<open>userLeft\<close> event emitted by its own join or leave, and it receives none of the events
  (\<^verbatim>\<open>typingUsers\<close>, \<^verbatim>\<open>userLeft\<close>) emitted by its own disconnect. The typing-list event
  after its own typing signal, however, is sent to every socket of the room, and so to \<open>c\<close>
  itself when it is in the room, its own entry included.
\<close>

theorem presence_events_exclude_self:
  "(\<forall>e \<in> set (snd (joinRoom s now c jd)). is_presence_event (snd e) \<longrightarrow> c \<notin> fst e)
   \<and> (\<forall>e \<in> set (snd (leaveRoom s c ld)). is_presence_event (snd e) \<longrightarrow> c \<notin> fst e)
   \<and> (\<forall>e \<in> set (snd (disconnect s c)). c \<notin> fst e)
   \<and> (socket_user s c = Some u \<and> c \<in> rooms s r \<longrightarrow>
        (\<exists>l. received c (snd (typing s c \<lparr>td_chatroomId = r, td_isTyping = True\<rparr>)) = [TypingUsers r l]
              \<and> \<lparr>ti_id = su_id u, ti_nickname = su_nickname u\<rparr> \<in> set l)
        \<and> (\<exists>l. received c (snd (typing s c \<lparr>td_chatroomId = r, td_isTyping = False\<rparr>)) = [TypingUsers r l]))"
proof -
  have j: "\<forall>e \<in> set (snd (joinRoom s now c jd)). is_presence_event (snd e) \<longrightarrow> c \<notin> fst e"
    by (simp add: joinRoom_def Let_def socket_emit_def socket_to_emit_def split: option.splits)
  have l: "\<forall>e \<in> set (snd (leaveRoom s c ld)). is_presence_event (snd e) \<longrightarrow> c \<notin> fst e"
    by (simp add: leaveRoom_def Let_def socket_to_emit_def split: option.splits)
  have d: "\<forall>e \<in> set (snd (disconnect s c)). c \<notin> fst e"
    using disconnect_rooms_excludes_self [of c _ "\<lambda>r. rooms s r - {c}" "chatroomUsers s" "typingUsers s"]
    by (cases "socket_user s c") (simp_all add: disconnect_emissions)
  have t: "socket_user s c = Some u \<and> c \<in> rooms s r \<longrightarrow>
        (\<exists>l. received c (snd (typing s c \<lparr>td_chatroomId = r, td_isTyping = True\<rparr>)) = [TypingUsers r l]
              \<and> \<lparr>ti_id = su_id u, ti_nickname = su_nickname u\<rparr> \<in> set l)
        \<and> (\<exists>l. received c (snd (typing s c \<lparr>td_chatroomId = r, td_isTyping = False\<rparr>)) = [TypingUsers r l])"
  proof (intro impI, elim conjE)
    assume u: "socket_user s c = Some u" and m: "c \<in> rooms s r"
    let ?m = "case typingUsers s r of None \<Rightarrow> [] | Some m \<Rightarrow> m"
    have "map_of (AList.update c \<lparr>ti_id = su_id u, ti_nickname = su_nickname u\<rparr> ?m) c =
            Some \<lparr>ti_id = su_id u, ti_nickname = su_nickname u\<rparr>"
      by (simp add: AList.update_conv)
    then have "(c, \<lparr>ti_id = su_id u, ti_nickname = su_nickname u\<rparr>)
                 \<in> set (AList.update c \<lparr>ti_id = su_id u, ti_nickname = su_nickname u\<rparr> ?m)"
      by (rule map_of_SomeD)
    then have "\<lparr>ti_id = su_id u, ti_nickname = su_nickname u\<rparr>
                 \<in> set (map snd (AList.update c \<lparr>ti_id = su_id u, ti_nickname = su_nickname u\<rparr> ?m))"
      by force
    with u m show "(\<exists>l. received c (snd (typing s c \<lparr>td_chatroomId = r, td_isTyping = True\<rparr>)) = [TypingUsers r l]
              \<and> \<lparr>ti_id = su_id u, ti_nickname = su_nickname u\<rparr> \<in> set l)
        \<and> (\<exists>l. received c (snd (typing s c \<lparr>td_chatroomId = r, td_isTyping = False\<rparr>)) = [TypingUsers r l])"
      by (simp add: typing_def Let_def io_to_emit_def received_def)
  qed
  from j l d t show ?thesis by blast
qed

text \<open>
  Socket 10 joins chatroom 7 from \<open>state_a\<close>; from \<open>state_b\<close> it leaves, disconnects or
  signals typing. The join, the leave and the disconnect do emit an event about socket 10,
  to socket 20.
\<close>

theorem presence_events_exclude_self_witness:
  "received 20 (snd (joinRoom state_a 6 10 \<lparr>rd_chatroomId = 7\<rparr>)) =
     [UserJoined 1 [65, 108] [97, 108] ([65, 108] @ joined_suffix)]
   \<and> filter is_presence_event (received 10 (snd (joinRoom state_a 6 10 \<lparr>rd_chatroomId = 7\<rparr>))) = []
   \<and> received 20 (snd (leaveRoom state_b 10 \<lparr>rd_chatroomId = 7\<rparr>)) =
       [UserLeft 1 [65, 108] ([65, 108] @ left_suffix)]
   \<and> filter is_presence_event (received 10 (snd (leaveRoom state_b 10 \<lparr>rd_chatroomId = 7\<rparr>))) = []
   \<and> received 20 (snd (disconnect state_b 10)) = [UserLeft 1 [65, 108] ([65, 108] @ left_suffix)]
   \<and> received 10 (snd (disconnect state_b 10)) = []
   \<and> socket_user state_b 10 = Some alice_info \<and> 10 \<in> rooms state_b 7
   \<and> (\<exists>l. received 10 (snd (typing state_b 10 \<lparr>td_chatroomId = 7, td_isTyping = True\<rparr>)) =
            [TypingUsers 7 l]
          \<and> \<lparr>ti_id = su_id alice_info, ti_nickname = su_nickname alice_info\<rparr> \<in> set l)"
proof -
  note a = presence_events_exclude_self [of state_a 6 10 "\<lparr>rd_chatroomId = 7\<rparr>"
      "\<lparr>rd_chatroomId = 7\<rparr>" alice_info 7]
  note b = presence_events_exclude_self [of state_b 6 10 "\<lparr>rd_chatroomId = 7\<rparr>"
      "\<lparr>rd_chatroomId = 7\<rparr>" alice_info 7]
  have h: "socket_user state_b 10 = Some alice_info" "10 \<in> rooms state_b 7"
    by (simp_all add: state_b_eq)
  have e: "received 20 (snd (joinRoom state_a 6 10 \<lparr>rd_chatroomId = 7\<rparr>)) =
             [UserJoined 1 [65, 108] [97, 108] ([65, 108] @ joined_suffix)]"
    "received 20 (snd (leaveRoom state_b 10 \<lparr>rd_chatroomId = 7\<rparr>)) =
       [UserLeft 1 [65, 108] ([65, 108] @ left_suffix)]"
    "received 20 (snd (disconnect state_b 10)) = [UserLeft 1 [65, 108] ([65, 108] @ left_suffix)]"
    by (simp_all add: state_a_eq state_b_eq handler_defs deployment_defs)
  from a have 1: "filter is_presence_event (received 10 (snd (joinRoom state_a 6 10 \<lparr>rd_chatroomId = 7\<rparr>))) = []"
    by (auto simp add: received_def filter_empty_conv)
  from b have 2: "filter is_presence_event (received 10 (snd (leaveRoom state_b 10 \<lparr>rd_chatroomId = 7\<rparr>))) = []"
    by (auto simp add: received_def filter_empty_conv)
  from b have 3: "received 10 (snd (disconnect state_b 10)) = []"
    by (auto simp add: received_def filter_empty_conv)
  from b h have 4: "\<exists>l. received 10 (snd (typing state_b 10 \<lparr>td_chatroomId = 7, td_isTyping = True\<rparr>)) =
            [TypingUsers 7 l]
          \<and> \<lparr>ti_id = su_id alice_info, ti_nickname = su_nickname alice_info\<rparr> \<in> set l"
    by blast
  from e 1 2 3 4 h show ?thesis by blast
qed

section \<open>Cleaning up after a connection\<close>

text \<open>
  What the \<^verbatim>\<open>disconnect\<close> handler does clear: the socket is in no Socket.IO room and not
  in the online-user registry afterwards, and, when it was authenticated, in no set of
  \<^verbatim>\<open>chatroomUsers\<close>.
\<close>

lemma disconnect_clears_membership:
  shows "c \<notin> rooms (fst (disconnect s c)) r"
    and "onlineUsers (fst (disconnect s c)) c = None"
    and "socket_user s c \<noteq> None \<Longrightarrow> \<not> member_of (fst (disconnect s c)) r c"
proof -
  show "c \<notin> rooms (fst (disconnect s c)) r"
    by (simp add: disconnect_def Let_def case_prod_beta split: option.splits)
  show "onlineUsers (fst (disconnect s c)) c = None"
    by (simp add: disconnect_def Let_def case_prod_beta split: option.splits)
  assume "socket_user s c \<noteq> None"
  then have "chatroomUsers (fst (disconnect s c)) = map (\<lambda>(r, ids). (r, ids - {c})) (chatroomUsers s)"
    by (auto simp add: disconnect_def Let_def case_prod_beta disconnect_rooms_sets)
  then show "\<not> member_of (fst (disconnect s c)) r c"
    by (auto simp add: member_of_def)
qed

text \<open>
  Claim C2: after the unwind of a connection on transport close, the connection is in no
  room's member set, has no typing entry in any room and is removed from the online-user
  registry. The \<^verbatim>\<open>disconnect\<close> handler deletes typing entries only in the rooms whose
  \<^verbatim>\<open>chatroomUsers\<close> set still holds the socket, and \<^verbatim>\<open>leaveRoom\<close> deletes none. In
  \<open>state_e\<close> socket 10 has signalled typing in chatroom 7, left it and disconnected: it is in
  no member set and not online, but its typing entry is still there, and the next typing
  list sent to the room shows it.
\<close>

theorem disconnect_leaves_typing_entry:
  "10 \<notin> rooms state_e 7 \<and> \<not> member_of state_e 7 10 \<and> onlineUsers state_e 10 = None
   \<and> has_typing_entry state_e 7 10
   \<and> snd (typing state_e 20 \<lparr>td_chatroomId = 7, td_isTyping = True\<rparr>) =
       [({20}, TypingUsers 7 [\<lparr>ti_id = 1, ti_nickname = [65, 108]\<rparr>,
                             \<lparr>ti_id = 2, ti_nickname = [66, 111]\<rparr>])]"
  by (simp add: state_e_def state_b_eq handler_defs deployment_defs)

end
